theory Spec2Isabelle
  imports Complex_Main "HOL-Library.Word"
begin

unbundle bit_operations_syntax

section \<open>Python values used by scripts/generate\_avatar.py\<close>

text \<open>
  Bytes are 8-bit words; \<open>bytes\<close> and \<open>bytearray\<close> are lists of them. Python integers
  are unbounded, so indices, offsets and lengths read from a container are \<open>int\<close>.
  An exception is a value of \<open>py_error\<close>, returned on the left of a sum.
\<close>

type_synonym byte = "8 word"

datatype py_error =
  IndexError | TypeError | ValueError | ImportError | OSError | UnidentifiedImageError | CvError

text \<open>
  \<open>xs[i]\<close> on a Python list: a negative index counts from the end, and an index
  outside the list raises IndexError.
\<close>

definition py_index :: "'a list \<Rightarrow> int \<Rightarrow> py_error + 'a" where
  "py_index xs i =
     (if 0 \<le> i \<and> i < int (length xs) then Inr (xs ! nat i)
      else if i < 0 \<and> 0 \<le> i + int (length xs) then Inr (xs ! nat (i + int (length xs)))
      else Inl IndexError)"

text \<open>
  The position at which \<open>xs[i] = v\<close> stores: the same normalisation as \<open>py_index\<close>,
  \<open>None\<close> where Python raises.
\<close>

definition py_position :: "'a list \<Rightarrow> int \<Rightarrow> nat option" where
  "py_position xs i =
     (if 0 \<le> i \<and> i < int (length xs) then Some (nat i)
      else if i < 0 \<and> 0 \<le> i + int (length xs) then Some (nat (i + int (length xs)))
      else None)"

text \<open>
  A bound of a slice \<open>xs[a:b]\<close> (step 1) on a sequence of length \<open>n\<close>: negative bounds
  count from the end and every bound is clipped into \<open>0..n\<close>.
\<close>

definition slice_bound :: "int \<Rightarrow> nat \<Rightarrow> nat" where
  "slice_bound i n =
     (if i < 0 then (if i + int n < 0 then 0 else nat (i + int n))
      else if int n \<le> i then n else nat i)"

definition py_slice :: "'a list \<Rightarrow> int \<Rightarrow> int \<Rightarrow> 'a list" where
  "py_slice xs a b =
     (let lo = slice_bound a (length xs); hi = slice_bound b (length xs)
      in take (hi - lo) (drop lo xs))"

text \<open>
  \<open>xs[a:b] = ys\<close> on a bytearray: the clipped range is removed and \<open>ys\<close> spliced in
  at its start, whatever the two lengths are; an empty or reversed range inserts at the
  lower bound.
\<close>

definition py_slice_assign :: "'a list \<Rightarrow> int \<Rightarrow> int \<Rightarrow> 'a list \<Rightarrow> 'a list" where
  "py_slice_assign xs a b ys =
     (let lo = slice_bound a (length xs); hi = max lo (slice_bound b (length xs))
      in take lo xs @ ys @ drop hi xs)"

text \<open>
  \<open>str.lower()\<close> on the ASCII letters and the substring test \<open>sub in s\<close>. Names are
  modelled as byte strings; case folding of non-ASCII letters is outside the model.
\<close>

definition lower_char :: "char \<Rightarrow> char" where
  "lower_char c =
     (let n = (of_char c :: nat) in if 65 \<le> n \<and> n \<le> 90 then char_of (n + 32) else c)"

definition lower :: "string \<Rightarrow> string" where
  "lower s = map lower_char s"

fun starts_with :: "string \<Rightarrow> string \<Rightarrow> bool" where
  "starts_with [] s = True"
| "starts_with (p # ps) [] = False"
| "starts_with (p # ps) (c # cs) = (p = c \<and> starts_with ps cs)"

fun str_contains :: "string \<Rightarrow> string \<Rightarrow> bool" where
  "str_contains sub [] = (sub = [])"
| "str_contains sub (c # cs) = (starts_with sub (c # cs) \<or> str_contains sub cs)"

section \<open>The container (the pygltflib objects the script reads and writes)\<close>

text \<open>
  Only the fields the script touches or sets are kept. pygltflib is not part of the
  repository; its classes are plain data holders whose optional fields default to None.
\<close>

record textureInfo =
  ti_index :: int

record pbrMetallicRoughness =
  baseColorTexture :: "textureInfo option"
  metallicFactor :: "rat option"
  roughnessFactor :: "rat option"

record material =
  mat_name :: "string option"
  mat_pbr :: "pbrMetallicRoughness option"
  doubleSided :: bool

record primitive =
  attributes :: "(string \<times> int) list"
  prim_indices :: "int option"
  prim_material :: "int option"
  prim_mode :: "int option"

record mesh =
  mesh_name :: "string option"
  primitives :: "primitive list"

record texture =
  source :: "int option"

record image =
  img_bufferView :: "int option"
  mimeType :: "string option"

record accessor =
  acc_bufferView :: int
  componentType :: int
  acc_count :: int
  acc_type :: string
  acc_max :: "rat list"
  acc_min :: "rat list"

record bufferView =
  bv_buffer :: int
  byteOffset :: int
  byteLength :: int
  bv_target :: "int option"

record buffer =
  buf_byteLength :: int

record asset =
  version :: string
  generator :: "string option"

record gltf =
  asset :: asset
  scene :: "int option"
  scenes :: "int list list"
  nodes :: "int option list"
  meshes :: "mesh list"
  materials :: "material list"
  textures :: "texture list"
  images :: "image list"
  accessors :: "accessor list"
  bufferViews :: "bufferView list"
  buffers :: "buffer list"
  binary_blob :: "byte list option"

section \<open>Container Resource Locator: \_find\_skin\_image\_index\<close>

definition is_head :: "mesh \<Rightarrow> bool" where
  "is_head m = str_contains ''head'' (lower (case mesh_name m of None \<Rightarrow> [] | Some s \<Rightarrow> s))"

definition is_skin :: "material \<Rightarrow> bool" where
  "is_skin m = str_contains ''skin'' (lower (case mat_name m of None \<Rightarrow> [] | Some s \<Rightarrow> s))"

text \<open>
  The block both strategies share (lines 170--175 and 180--185): from a material to the
  image index of its base-colour texture. \<open>Inr (Some i)\<close> is the early \<open>return\<close>,
  \<open>Inr None\<close> falls through to the next iteration.
\<close>

definition material_image :: "gltf \<Rightarrow> material \<Rightarrow> py_error + int option" where
  "material_image g mat =
     (case mat_pbr mat of
        None \<Rightarrow> Inr None
      | Some pbr \<Rightarrow>
          (case baseColorTexture pbr of
             None \<Rightarrow> Inr None
           | Some ti \<Rightarrow>
               (case py_index (textures g) (ti_index ti) of
                  Inl e \<Rightarrow> Inl e
                | Inr tex \<Rightarrow> Inr (source tex))))"

text \<open>The loop over one mesh's primitives (lines 167--175).\<close>

fun scan_primitives :: "gltf \<Rightarrow> primitive list \<Rightarrow> py_error + int option" where
  "scan_primitives g [] = Inr None"
| "scan_primitives g (prim # prims) =
     (case prim_material prim of
        None \<Rightarrow> scan_primitives g prims
      | Some m \<Rightarrow>
          (case py_index (materials g) m of
             Inl e \<Rightarrow> Inl e
           | Inr mat \<Rightarrow>
               (case material_image g mat of
                  Inl e \<Rightarrow> Inl e
                | Inr (Some i) \<Rightarrow> Inr (Some i)
                | Inr None \<Rightarrow> scan_primitives g prims)))"

text \<open>Strategy 1, the loop over the meshes (lines 165--175).\<close>

fun scan_meshes :: "gltf \<Rightarrow> mesh list \<Rightarrow> py_error + int option" where
  "scan_meshes g [] = Inr None"
| "scan_meshes g (m # ms) =
     (if is_head m then
        (case scan_primitives g (primitives m) of
           Inl e \<Rightarrow> Inl e
         | Inr (Some i) \<Rightarrow> Inr (Some i)
         | Inr None \<Rightarrow> scan_meshes g ms)
      else scan_meshes g ms)"

text \<open>Strategy 2, the loop over the materials (lines 178--185).\<close>

fun scan_materials :: "gltf \<Rightarrow> material list \<Rightarrow> py_error + int option" where
  "scan_materials g [] = Inr None"
| "scan_materials g (mat # mats) =
     (if is_skin mat then
        (case material_image g mat of
           Inl e \<Rightarrow> Inl e
         | Inr (Some i) \<Rightarrow> Inr (Some i)
         | Inr None \<Rightarrow> scan_materials g mats)
      else scan_materials g mats)"

definition find_skin_image_index :: "gltf \<Rightarrow> py_error + int option" where
  "find_skin_image_index g =
     (case scan_meshes g (meshes g) of
        Inl e \<Rightarrow> Inl e
      | Inr (Some i) \<Rightarrow> Inr (Some i)
      | Inr None \<Rightarrow> scan_materials g (materials g))"

section \<open>Files\<close>

text \<open>
  A file holds an encoded image or a saved container (pygltflib's serialisation is not
  modelled: a saved container is the object that was saved). A write either replaces
  the whole file or raises and leaves the file system as it was.
\<close>

datatype file_content = PngFile "byte list" | GlbFile gltf

record filesystem =
  files :: "string \<Rightarrow> file_content option"
  writable :: "string \<Rightarrow> bool"

definition write_file :: "filesystem \<Rightarrow> string \<Rightarrow> file_content \<Rightarrow> py_error + filesystem" where
  "write_file fsys path content =
     (if writable fsys path then Inr (fsys\<lparr>files := (files fsys)(path \<mapsto> content)\<rparr>)
      else Inl OSError)"

text \<open>\<open>GLTF2.load(path)\<close>.\<close>

definition load_glb :: "filesystem \<Rightarrow> string \<Rightarrow> py_error + gltf" where
  "load_glb fsys path =
     (case files fsys path of
        None \<Rightarrow> Inl OSError
      | Some (PngFile bs) \<Rightarrow> Inl ValueError
      | Some (GlbFile g) \<Rightarrow> Inr g)"

section \<open>Images and the float32 blend\<close>

text \<open>
  An array of shape (h, w) is a list of h rows of w entries; an RGB pixel is a triple
  of bytes.
\<close>

type_synonym 'a grid = "'a list list"
type_synonym rgb = "byte \<times> byte \<times> byte"

definition np_shape :: "'a grid \<Rightarrow> nat \<times> nat" where
  "np_shape a = (length a, case a of [] \<Rightarrow> 0 | r # rs \<Rightarrow> length r)"

text \<open>
  A finite float32 is a rational number, and a float32 operation is the exact operation
  followed by rounding to the nearest float32, ties to even (IEEE 754 binary32: 24
  significant bits, exponents -126..127, gradual underflow). Overflow to infinity is
  outside the model; the blend stays below 1024.
\<close>

definition pow2 :: "int \<Rightarrow> rat" where
  "pow2 e = (if 0 \<le> e then 2 ^ nat e else 1 / 2 ^ nat (- e))"

fun f32_exponent :: "nat \<Rightarrow> rat \<Rightarrow> int" where
  "f32_exponent 0 x = - 126"
| "f32_exponent (Suc k) x =
     (if pow2 (int k - 126) \<le> x then int k - 126 else f32_exponent k x)"

definition round_half_even :: "rat \<Rightarrow> int" where
  "round_half_even q =
     (let f = \<lfloor>q\<rfloor>; d = q - of_int f
      in if d < 1 / 2 then f else if 1 / 2 < d then f + 1 else if even f then f else f + 1)"

definition f32 :: "rat \<Rightarrow> rat" where
  "f32 x =
     (let ulp = pow2 (f32_exponent 254 \<bar>x\<bar> - 23)
      in of_int (round_half_even (x / ulp)) * ulp)"

definition fmul :: "rat \<Rightarrow> rat \<Rightarrow> rat" where "fmul a b = f32 (a * b)"
definition fadd :: "rat \<Rightarrow> rat \<Rightarrow> rat" where "fadd a b = f32 (a + b)"
definition fsub :: "rat \<Rightarrow> rat \<Rightarrow> rat" where "fsub a b = f32 (a - b)"
definition fdiv :: "rat \<Rightarrow> rat \<Rightarrow> rat" where "fdiv a b = f32 (a / b)"

text \<open>\<open>astype(np.float32)\<close> of a byte (exact) and \<open>astype(np.uint8)\<close> of a float32
  (the fraction is cut off).\<close>

definition of_uint8 :: "byte \<Rightarrow> rat" where
  "of_uint8 b = of_nat (unat b)"

definition to_uint8 :: "rat \<Rightarrow> byte" where
  "to_uint8 x = word_of_int (if 0 \<le> x then \<lfloor>x\<rfloor> else \<lceil>x\<rceil>)"

text \<open>
  An elementwise numpy operation on two arrays: a dimension of size 1 is stretched to
  the other array's size, any other mismatch raises ValueError.
\<close>

definition np_stretch :: "nat \<Rightarrow> 'a list \<Rightarrow> 'a list" where
  "np_stretch n xs = (if length xs = 1 \<and> n \<noteq> 1 then replicate n (hd xs) else xs)"

definition np_compatible :: "nat \<Rightarrow> nat \<Rightarrow> bool" where
  "np_compatible m n = (m = n \<or> m = 1 \<or> n = 1)"

definition np_dim :: "nat \<Rightarrow> nat \<Rightarrow> nat" where
  "np_dim m n = (if m = 1 then n else m)"

definition np_binop :: "('a \<Rightarrow> 'b \<Rightarrow> 'c) \<Rightarrow> 'a grid \<Rightarrow> 'b grid \<Rightarrow> py_error + 'c grid" where
  "np_binop f a b =
     (let (h1, w1) = np_shape a; (h2, w2) = np_shape b
      in if np_compatible h1 h2 \<and> np_compatible w1 w2 then
           Inr (map2 (map2 f)
                  (np_stretch (np_dim h1 h2) (map (np_stretch (np_dim w1 w2)) a))
                  (np_stretch (np_dim h1 h2) (map (np_stretch (np_dim w1 w2)) b)))
         else Inl ValueError)"

definition scale_rgb :: "rat \<times> rat \<times> rat \<Rightarrow> rat \<Rightarrow> rat \<times> rat \<times> rat" where
  "scale_rgb p a = (case p of (r, g, b) \<Rightarrow> (fmul r a, fmul g a, fmul b a))"

definition add_rgb :: "rat \<times> rat \<times> rat \<Rightarrow> rat \<times> rat \<times> rat \<Rightarrow> rat \<times> rat \<times> rat" where
  "add_rgb p q = (case p of (r, g, b) \<Rightarrow> case q of (r', g', b') \<Rightarrow> (fadd r r', fadd g g', fadd b b'))"

definition rgb_to_f32 :: "rgb \<Rightarrow> rat \<times> rat \<times> rat" where
  "rgb_to_f32 p = (case p of (r, g, b) \<Rightarrow> (of_uint8 r, of_uint8 g, of_uint8 b))"

definition rgb_to_uint8 :: "rat \<times> rat \<times> rat \<Rightarrow> rgb" where
  "rgb_to_uint8 p = (case p of (r, g, b) \<Rightarrow> (to_uint8 r, to_uint8 g, to_uint8 b))"

text \<open>Lines 240--245 of replace\_texture\_in\_glb.\<close>

definition blend :: "rgb grid \<Rightarrow> byte grid \<Rightarrow> rgb grid \<Rightarrow> py_error + rgb grid" where
  "blend warped_face face_mask original =
     (let alpha = map (map (\<lambda>m. fdiv (of_uint8 m) 255)) face_mask
      in case np_binop scale_rgb (map (map rgb_to_f32) warped_face) alpha of
           Inl e \<Rightarrow> Inl e
         | Inr t1 \<Rightarrow>
             (case np_binop scale_rgb (map (map rgb_to_f32) original)
                     (map (map (\<lambda>a. fsub 1 a)) alpha) of
                Inl e \<Rightarrow> Inl e
              | Inr t2 \<Rightarrow>
                  (case np_binop add_rgb t1 t2 of
                     Inl e \<Rightarrow> Inl e
                   | Inr s \<Rightarrow> Inr (map (map rgb_to_uint8) s))))"

section \<open>Container Binary Patcher: replace\_texture\_in\_glb\<close>

text \<open>
  What the function takes from PIL and OpenCV: decoding the embedded image to an RGB
  array, bilinear resizing, PNG encoding. Each may raise.
\<close>

record codecs =
  pygltflib_installed :: bool
  decode_rgb :: "byte list \<Rightarrow> py_error + rgb grid"
  resize_rgb :: "rgb grid \<Rightarrow> nat \<Rightarrow> nat \<Rightarrow> py_error + rgb grid"
  resize_mask :: "byte grid \<Rightarrow> nat \<Rightarrow> nat \<Rightarrow> py_error + byte grid"
  png_encode :: "rgb grid \<Rightarrow> py_error + byte list"

text \<open>\_extract\_glb\_image (lines 190--199); \<open>None[a:b]\<close> raises TypeError.\<close>

definition extract_glb_image :: "codecs \<Rightarrow> gltf \<Rightarrow> int \<Rightarrow> py_error + rgb grid option" where
  "extract_glb_image env g image_index =
     (case py_index (images g) image_index of
        Inl e \<Rightarrow> Inl e
      | Inr img_info \<Rightarrow>
          (case img_bufferView img_info of
             None \<Rightarrow> Inr None
           | Some k \<Rightarrow>
               (case py_index (bufferViews g) k of
                  Inl e \<Rightarrow> Inl e
                | Inr bv \<Rightarrow>
                    (case binary_blob g of
                       None \<Rightarrow> Inl TypeError
                     | Some blob \<Rightarrow>
                         (case decode_rgb env
                                 (py_slice blob (byteOffset bv) (byteOffset bv + byteLength bv)) of
                            Inl e \<Rightarrow> Inl e
                          | Inr pixels \<Rightarrow> Inr (Some pixels))))))"

text \<open>The padding loop of lines 271--273.\<close>

function pad_loop :: "byte list \<Rightarrow> nat \<Rightarrow> byte list \<times> nat" where
  "pad_loop blob new_offset =
     (if new_offset mod 4 \<noteq> 0 then pad_loop (blob @ [0]) (new_offset + 1)
      else (blob, new_offset))"
  by pat_completeness auto
termination
proof (relation "measure (\<lambda>(blob, n). 3 - (n + 3) mod 4)")
  show "wf (measure (\<lambda>(blob::byte list, n::nat). 3 - (n + 3) mod 4))" by simp
next
  fix blob :: "byte list" and new_offset :: nat
  assume "new_offset mod 4 \<noteq> 0"
  then have "3 - (new_offset + 1 + 3) mod 4 < 3 - (new_offset + 3) mod 4" by presburger
  then show "((blob @ [0], new_offset + 1), (blob, new_offset))
               \<in> measure (\<lambda>(blob, n). 3 - (n + 3) mod 4)"
    by simp
qed

declare pad_loop.simps [simp del]

text \<open>\<open>xs[i] = v\<close> for an index that \<open>py_index\<close> accepts.\<close>

definition store_at :: "'a list \<Rightarrow> int \<Rightarrow> 'a \<Rightarrow> 'a list" where
  "store_at xs i v = (case py_position xs i of None \<Rightarrow> xs | Some p \<Rightarrow> xs[p := v])"

text \<open>
  Lines 255--281: the rewrite of the blob and of the metadata. The objects \<open>image\<close>
  and \<open>bv\<close> are elements of the container's lists, so assigning to their fields
  changes the lists at those positions.
\<close>

definition replace_texture_patch :: "gltf \<Rightarrow> int \<Rightarrow> byte list \<Rightarrow> py_error + gltf" where
  "replace_texture_patch g face_image_index png_bytes =
     (case py_index (images g) face_image_index of
        Inl e \<Rightarrow> Inl e
      | Inr img \<Rightarrow>
          (case img_bufferView img of
             None \<Rightarrow> Inr g
           | Some k \<Rightarrow>
               (case py_index (bufferViews g) k of
                  Inl e \<Rightarrow> Inl e
                | Inr bv \<Rightarrow>
                    (let g1 =
                       (case binary_blob g of
                          None \<Rightarrow> g
                        | Some blob \<Rightarrow>
                            (let old_length = byteLength bv;
                                 new_length = int (length png_bytes)
                             in if new_length \<le> old_length then
                                  (let blob1 = py_slice_assign blob (byteOffset bv)
                                                 (byteOffset bv + new_length) png_bytes;
                                       blob2 = py_slice_assign blob1 (byteOffset bv + new_length)
                                                 (byteOffset bv + old_length)
                                                 (replicate (nat (old_length - new_length)) 0)
                                   in g\<lparr>bufferViews :=
                                          store_at (bufferViews g) k (bv\<lparr>byteLength := new_length\<rparr>),
                                        binary_blob := Some blob2\<rparr>)
                                else
                                  (case pad_loop blob (length blob) of
                                     (blob1, new_offset) \<Rightarrow>
                                       (let blob2 = blob1 @ png_bytes
                                        in g\<lparr>bufferViews :=
                                               store_at (bufferViews g) k
                                                 (bv\<lparr>byteOffset := int new_offset,
                                                     byteLength := new_length\<rparr>),
                                             buffers :=
                                               (case buffers g of
                                                  [] \<Rightarrow> []
                                                | b0 # bs \<Rightarrow>
                                                    b0\<lparr>buf_byteLength := int (length blob2)\<rparr> # bs),
                                             binary_blob := Some blob2\<rparr>))))
                     in Inr (g1\<lparr>images :=
                                store_at (images g1) face_image_index
                                  (img\<lparr>mimeType := Some ''image/png''\<rparr>)\<rparr>)))))"

text \<open>
  Lines 234--251: resize if the sizes differ, blend, encode as PNG.
\<close>

definition composite_png ::
  "codecs \<Rightarrow> rgb grid \<Rightarrow> byte grid \<Rightarrow> rgb grid \<Rightarrow> py_error + byte list" where
  "composite_png env warped_face face_mask original =
     (case np_shape original of
        (tex_h, tex_w) \<Rightarrow>
          (case (if np_shape warped_face \<noteq> (tex_h, tex_w) then
                   (case resize_rgb env warped_face tex_w tex_h of
                      Inl e \<Rightarrow> Inl e
                    | Inr w \<Rightarrow>
                        (case resize_mask env face_mask tex_w tex_h of
                           Inl e \<Rightarrow> Inl e
                         | Inr m \<Rightarrow> Inr (w, m)))
                 else Inr (warped_face, face_mask)) of
             Inl e \<Rightarrow> Inl e
           | Inr (w, m) \<Rightarrow>
               (case blend w m original of
                  Inl e \<Rightarrow> Inl e
                | Inr blended \<Rightarrow> png_encode env blended)))"

text \<open>
  The whole function. The result is the returned value or the exception raised, the
  lines written to stderr, and the file system afterwards.
\<close>

definition replace_texture_in_glb ::
  "codecs \<Rightarrow> filesystem \<Rightarrow> string \<Rightarrow> rgb grid \<Rightarrow> byte grid \<Rightarrow> string
     \<Rightarrow> (py_error + bool) \<times> string list \<times> filesystem" where
  "replace_texture_in_glb env fsys template_path warped_face face_mask output_path =
     (if \<not> pygltflib_installed env then
        (Inr False, [''Error: pygltflib not installed''], fsys)
      else
        (case load_glb fsys template_path of
           Inl e \<Rightarrow> (Inl e, [], fsys)
         | Inr g \<Rightarrow>
             (case find_skin_image_index g of
                Inl e \<Rightarrow> (Inl e, [], fsys)
              | Inr None \<Rightarrow>
                  (Inr False,
                   [''Error: No suitable face/skin texture found in template GLB''], fsys)
              | Inr (Some face_image_index) \<Rightarrow>
                  (case extract_glb_image env g face_image_index of
                     Inl e \<Rightarrow> (Inl e, [], fsys)
                   | Inr None \<Rightarrow>
                       (Inr False, [''Error: Could not extract original skin texture''], fsys)
                   | Inr (Some original) \<Rightarrow>
                       (case composite_png env warped_face face_mask original of
                          Inl e \<Rightarrow> (Inl e, [], fsys)
                        | Inr png_bytes \<Rightarrow>
                            (case replace_texture_patch g face_image_index png_bytes of
                               Inl e \<Rightarrow> (Inl e, [], fsys)
                             | Inr g' \<Rightarrow>
                                 (case write_file fsys output_path (GlbFile g') of
                                    Inl e \<Rightarrow> (Inl e, [], fsys)
                                  | Inr fsys' \<Rightarrow> (Inr True, [], fsys'))))))))"

section \<open>The locator as the specification words it\<close>

text \<open>
  The chain material \<rightarrow> base-colour texture \<rightarrow> image, and primitive \<rightarrow> material \<rightarrow> \<dots>,
  as plain look-ups: a chain resolves to \<open>Some i\<close> or does not resolve.
\<close>

definition resolve_material :: "gltf \<Rightarrow> material \<Rightarrow> int option" where
  "resolve_material g mat =
     (case mat_pbr mat of
        None \<Rightarrow> None
      | Some pbr \<Rightarrow>
          (case baseColorTexture pbr of
             None \<Rightarrow> None
           | Some ti \<Rightarrow>
               (case py_index (textures g) (ti_index ti) of
                  Inl e \<Rightarrow> None
                | Inr tex \<Rightarrow> source tex)))"

definition resolve_primitive :: "gltf \<Rightarrow> primitive \<Rightarrow> int option" where
  "resolve_primitive g prim =
     (case prim_material prim of
        None \<Rightarrow> None
      | Some m \<Rightarrow>
          (case py_index (materials g) m of
             Inl e \<Rightarrow> None
           | Inr mat \<Rightarrow> resolve_material g mat))"

fun first_some :: "'a option list \<Rightarrow> 'a option" where
  "first_some [] = None"
| "first_some (None # xs) = first_some xs"
| "first_some (Some x # xs) = Some x"

text \<open>
  Strategy 1 looks at the primitives of the meshes named like a head, mesh by mesh;
  strategy 2 at the materials named like skin. The first chain that resolves wins, and
  strategy 2 is consulted only when strategy 1 resolves nothing.
\<close>

definition head_candidates :: "gltf \<Rightarrow> int option list" where
  "head_candidates g =
     concat (map (\<lambda>m. map (resolve_primitive g) (primitives m)) (filter is_head (meshes g)))"

definition skin_candidates :: "gltf \<Rightarrow> int option list" where
  "skin_candidates g = map (resolve_material g) (filter is_skin (materials g))"

definition locate_face_image :: "gltf \<Rightarrow> int option" where
  "locate_face_image g =
     (case first_some (head_candidates g) of
        Some i \<Rightarrow> Some i
      | None \<Rightarrow> first_some (skin_candidates g))"

text \<open>Every material and texture index of the graph is one Python accepts.\<close>

definition index_ok :: "'a list \<Rightarrow> int \<Rightarrow> bool" where
  "index_ok xs i = (- int (length xs) \<le> i \<and> i < int (length xs))"

definition material_refs_ok :: "gltf \<Rightarrow> material \<Rightarrow> bool" where
  "material_refs_ok g mat =
     (case mat_pbr mat of
        None \<Rightarrow> True
      | Some pbr \<Rightarrow>
          (case baseColorTexture pbr of
             None \<Rightarrow> True
           | Some ti \<Rightarrow> index_ok (textures g) (ti_index ti)))"

definition primitive_refs_ok :: "gltf \<Rightarrow> primitive \<Rightarrow> bool" where
  "primitive_refs_ok g prim =
     (case prim_material prim of None \<Rightarrow> True | Some m \<Rightarrow> index_ok (materials g) m)"

definition refs_ok :: "gltf \<Rightarrow> bool" where
  "refs_ok g =
     (list_all (material_refs_ok g) (materials g) \<and>
      list_all (\<lambda>m. list_all (primitive_refs_ok g) (primitives m)) (meshes g))"

section \<open>Example containers\<close>

text \<open>
  A template in the shape of the expected family: a mesh Wolf3D\_Head whose material
  Skin has a base-colour texture, the image in the second of three buffer views.
\<close>

definition head_template :: gltf where
  "head_template =
     \<lparr>asset = \<lparr>version = ''2.0'', generator = None\<rparr>,
      scene = Some 0, scenes = [[0]], nodes = [Some 0],
      meshes =
        [\<lparr>mesh_name = Some ''Wolf3D_Head'',
          primitives =
            [\<lparr>attributes = [(''POSITION'', 0)], prim_indices = None,
              prim_material = Some 0, prim_mode = None\<rparr>]\<rparr>],
      materials =
        [\<lparr>mat_name = Some ''Skin'',
          mat_pbr =
            Some \<lparr>baseColorTexture = Some \<lparr>ti_index = 0\<rparr>,
                  metallicFactor = None, roughnessFactor = None\<rparr>,
          doubleSided = False\<rparr>],
      textures = [\<lparr>source = Some 0\<rparr>],
      images = [\<lparr>img_bufferView = Some 1, mimeType = Some ''image/jpeg''\<rparr>],
      accessors =
        [\<lparr>acc_bufferView = 0, componentType = 5121, acc_count = 4, acc_type = ''SCALAR'',
          acc_max = [4], acc_min = [1]\<rparr>],
      bufferViews =
        [\<lparr>bv_buffer = 0, byteOffset = 0, byteLength = 4, bv_target = Some 34962\<rparr>,
         \<lparr>bv_buffer = 0, byteOffset = 4, byteLength = 5, bv_target = None\<rparr>,
         \<lparr>bv_buffer = 0, byteOffset = 12, byteLength = 2, bv_target = Some 34962\<rparr>],
      buffers = [\<lparr>buf_byteLength = 14\<rparr>],
      binary_blob = Some [1, 2, 3, 4, 9, 9, 9, 9, 9, 0, 0, 0, 5, 6]\<rparr>"

section \<open>Standalone Container Builder: generate\_standalone\_avatar\<close>

text \<open>\<open>output_path.replace(".glb", ".png")\<close>: every occurrence, left to right.\<close>

fun replace_glb_png :: "string \<Rightarrow> string" where
  "replace_glb_png (c1 # c2 # c3 # c4 # rest) =
     (if [c1, c2, c3, c4] = ''.glb'' then ''.png'' @ replace_glb_png rest
      else c1 # replace_glb_png (c2 # c3 # c4 # rest))"
| "replace_glb_png s = s"

text \<open>\<open>align4\<close> of line 388, on Python's integers.\<close>

definition align4 :: "int \<Rightarrow> int" where
  "align4 n = (n + 3) AND NOT 3"

text \<open>
  \<open>ndarray.tobytes()\<close> in the machine's byte order, taken to be little-endian. The
  float32 entries of \<open>vertices\<close> and \<open>uvs\<close> are given by their bit patterns.
\<close>

definition u16_le :: "16 word \<Rightarrow> byte list" where
  "u16_le w = [ucast w, ucast (drop_bit 8 w)]"

definition u32_le :: "32 word \<Rightarrow> byte list" where
  "u32_le w = [ucast w, ucast (drop_bit 8 w), ucast (drop_bit 16 w), ucast (drop_bit 24 w)]"

definition f32_zero :: "32 word" where "f32_zero = 0"
definition f32_half :: "32 word" where "f32_half = 0x3F000000"
definition f32_minus_half :: "32 word" where "f32_minus_half = 0xBF000000"
definition f32_one :: "32 word" where "f32_one = 0x3F800000"

definition indices :: "16 word list" where
  "indices = [0, 1, 2, 0, 2, 3]"

definition vertices :: "32 word list list" where
  "vertices =
     [[f32_minus_half, f32_minus_half, f32_zero], [f32_half, f32_minus_half, f32_zero],
      [f32_half, f32_half, f32_zero], [f32_minus_half, f32_half, f32_zero]]"

definition uvs :: "32 word list list" where
  "uvs = [[f32_zero, f32_one], [f32_one, f32_one], [f32_one, f32_zero], [f32_zero, f32_zero]]"

text \<open>Lines 380--485: the blob and the container built around it.\<close>

definition standalone_gltf :: "byte list \<Rightarrow> gltf" where
  "standalone_gltf png_bytes =
     (let indices_bytes = concat (map u16_le indices);
          vertices_bytes = concat (map u32_le (concat vertices));
          uvs_bytes = concat (map u32_le (concat uvs));
          idx_len = int (length indices_bytes);
          vtx_len = int (length vertices_bytes);
          uv_len = int (length uvs_bytes);
          img_len = int (length png_bytes);
          data0 = indices_bytes @ replicate (nat (align4 idx_len - idx_len)) 0;
          vtx_offset = int (length data0);
          data1 = data0 @ vertices_bytes @ replicate (nat (align4 vtx_len - vtx_len)) 0;
          uv_offset = int (length data1);
          data2 = data1 @ uvs_bytes @ replicate (nat (align4 uv_len - uv_len)) 0;
          img_offset = int (length data2);
          buffer_data = data2 @ png_bytes @ replicate (nat (align4 img_len - img_len)) 0
      in \<lparr>asset = \<lparr>version = ''2.0'', generator = Some ''super-characters-avatar''\<rparr>,
          scene = Some 0, scenes = [[0]], nodes = [Some 0],
          meshes =
            [\<lparr>mesh_name = None,
              primitives =
                [\<lparr>attributes = [(''POSITION'', 1), (''TEXCOORD_0'', 2)],
                  prim_indices = Some 0, prim_material = Some 0, prim_mode = Some 4\<rparr>]\<rparr>],
          materials =
            [\<lparr>mat_name = None,
              mat_pbr =
                Some \<lparr>baseColorTexture = Some \<lparr>ti_index = 0\<rparr>,
                      metallicFactor = Some 0, roughnessFactor = Some 1\<rparr>,
              doubleSided = True\<rparr>],
          textures = [\<lparr>source = Some 0\<rparr>],
          images = [\<lparr>img_bufferView = Some 3, mimeType = Some ''image/png''\<rparr>],
          accessors =
            [\<lparr>acc_bufferView = 0, componentType = 5123, acc_count = 6, acc_type = ''SCALAR'',
              acc_max = [3], acc_min = [0]\<rparr>,
             \<lparr>acc_bufferView = 1, componentType = 5126, acc_count = 4, acc_type = ''VEC3'',
              acc_max = [1 / 2, 1 / 2, 0], acc_min = [- 1 / 2, - 1 / 2, 0]\<rparr>,
             \<lparr>acc_bufferView = 2, componentType = 5126, acc_count = 4, acc_type = ''VEC2'',
              acc_max = [1, 1], acc_min = [0, 0]\<rparr>],
          bufferViews =
            [\<lparr>bv_buffer = 0, byteOffset = 0, byteLength = idx_len, bv_target = Some 34963\<rparr>,
             \<lparr>bv_buffer = 0, byteOffset = vtx_offset, byteLength = vtx_len,
              bv_target = Some 34962\<rparr>,
             \<lparr>bv_buffer = 0, byteOffset = uv_offset, byteLength = uv_len,
              bv_target = Some 34962\<rparr>,
             \<lparr>bv_buffer = 0, byteOffset = img_offset, byteLength = img_len,
              bv_target = None\<rparr>],
          buffers = [\<lparr>buf_byteLength = int (length buffer_data)\<rparr>],
          binary_blob = Some buffer_data\<rparr>)"

text \<open>
  The body of the \<open>try\<close> (lines 350--490): what it returns is the file system after
  \<open>gltf.save\<close>, what it raises is caught by \<open>except Exception\<close>.
\<close>

definition standalone_try :: "codecs \<Rightarrow> filesystem \<Rightarrow> rgb grid \<Rightarrow> string \<Rightarrow> py_error + filesystem" where
  "standalone_try env fsys face_texture output_path =
     (if \<not> pygltflib_installed env then Inl ImportError
      else
        (case png_encode env face_texture of
           Inl e \<Rightarrow> Inl e
         | Inr png_bytes \<Rightarrow> write_file fsys output_path (GlbFile (standalone_gltf png_bytes))))"

text \<open>
  The whole function: the returned value or the exception that reaches the caller, and
  the file system afterwards. The warnings it prints are not modelled. The parameter
  \<open>image_path\<close> is not used by the source either.
\<close>

definition generate_standalone_avatar ::
  "codecs \<Rightarrow> filesystem \<Rightarrow> string \<Rightarrow> rgb grid \<Rightarrow> string \<Rightarrow> (py_error + bool) \<times> filesystem" where
  "generate_standalone_avatar env fsys image_path face_texture output_path =
     (let texture_path = replace_glb_png output_path
      in case png_encode env face_texture of
           Inl e \<Rightarrow> (Inl e, fsys)
         | Inr png \<Rightarrow>
             (case write_file fsys texture_path (PngFile png) of
                Inl e \<Rightarrow> (Inl e, fsys)
              | Inr fsys1 \<Rightarrow>
                  (case standalone_try env fsys1 face_texture output_path of
                     Inl e \<Rightarrow> (Inr False, fsys1)
                   | Inr fsys2 \<Rightarrow> (Inr True, fsys2))))"

section \<open>Geometry Mapper and Face Mask Builder: extract\_face\_texture\<close>












section \<open>Example environments\<close>

text \<open>
  A template with no head mesh and no skin material, and the head template without
  its binary blob.
\<close>

definition body_template :: gltf where
  "body_template =
     head_template
       \<lparr>meshes :=
          [\<lparr>mesh_name = Some ''Wolf3D_Body'',
            primitives =
              [\<lparr>attributes = [(''POSITION'', 0)], prim_indices = None,
                prim_material = Some 0, prim_mode = None\<rparr>]\<rparr>],
        materials :=
          [\<lparr>mat_name = Some ''Cloth'',
            mat_pbr =
              Some \<lparr>baseColorTexture = Some \<lparr>ti_index = 0\<rparr>,
                    metallicFactor = None, roughnessFactor = None\<rparr>,
            doubleSided = False\<rparr>]\<rparr>"

text \<open>
  Stand-ins for the image libraries, small enough to evaluate: a decoded image has one
  pixel, made of the first three bytes; encoding writes three bytes per pixel.
\<close>

definition toy_codecs :: codecs where
  "toy_codecs =
     \<lparr>pygltflib_installed = True,
      decode_rgb =
        (\<lambda>bs. case bs of r # g # b # rest \<Rightarrow> Inr [[(r, g, b)]] | _ \<Rightarrow> Inl UnidentifiedImageError),
      resize_rgb = (\<lambda>px w h. Inr (replicate h (replicate w (0, 0, 0)))),
      resize_mask = (\<lambda>m w h. Inr (replicate h (replicate w 0))),
      png_encode = (\<lambda>px. Inr (concat (map (\<lambda>(r, g, b). [r, g, b]) (concat px))))\<rparr>"

text \<open>A disk that holds one file, the template, and accepts every write.\<close>

definition disk_with :: "gltf \<Rightarrow> filesystem" where
  "disk_with g = \<lparr>files = [''template.glb'' \<mapsto> GlbFile g], writable = (\<lambda>p. True)\<rparr>"

definition blobless_head_template :: gltf where
  "blobless_head_template = head_template\<lparr>binary_blob := None\<rparr>"

text \<open>The blob of the standalone container: the four payloads in order, then the padding
  of the last one.\<close>

definition standalone_blob :: "byte list \<Rightarrow> byte list" where
  "standalone_blob png =
     concat (map u16_le indices) @ concat (map u32_le (concat vertices)) @
     concat (map u32_le (concat uvs)) @ png @
     replicate (nat (align4 (int (length png)) - int (length png))) 0"




text \<open>An array of h rows, each of w entries.\<close>

definition has_shape :: "nat \<Rightarrow> nat \<Rightarrow> 'a grid \<Rightarrow> bool" where
  "has_shape h w a = (length a = h \<and> list_all (\<lambda>r. length r = w) a)"

section \<open>Verification\<close>

lemma py_index_ok: "index_ok xs i \<Longrightarrow> \<exists>x. py_index xs i = Inr x \<and> x \<in> set xs"
  by (auto simp: index_ok_def py_index_def)

lemma first_some_append:
  "first_some (xs @ ys) = (case first_some xs of Some i \<Rightarrow> Some i | None \<Rightarrow> first_some ys)"
  by (induction xs rule: first_some.induct) auto

lemma material_image_resolve: "material_image g mat = Inr r \<Longrightarrow> resolve_material g mat = r"
  by (auto simp: material_image_def resolve_material_def split: option.splits sum.splits)

lemma material_image_total:
  "material_refs_ok g mat \<Longrightarrow> material_image g mat = Inr (resolve_material g mat)"
  by (auto simp: material_image_def resolve_material_def material_refs_ok_def
      split: option.splits sum.splits dest: py_index_ok)

lemma scan_primitives_resolve:
  "scan_primitives g prims = Inr r \<Longrightarrow> r = first_some (map (resolve_primitive g) prims)"
proof (induction prims)
  case Nil
  then show ?case by simp
next
  case (Cons p ps)
  then show ?case
    by (auto simp: resolve_primitive_def material_image_resolve
        split: option.splits sum.splits)
qed

lemma scan_primitives_total:
  "list_all (material_refs_ok g) (materials g) \<Longrightarrow> list_all (primitive_refs_ok g) prims \<Longrightarrow>
   \<exists>r. scan_primitives g prims = Inr r"
proof (induction prims)
  case Nil
  then show ?case by simp
next
  case (Cons p ps)
  show ?case
  proof (cases "prim_material p")
    case None
    with Cons show ?thesis by simp
  next
    case (Some m)
    with Cons.prems have "index_ok (materials g) m" by (simp add: primitive_refs_ok_def)
    then obtain mat where mat: "py_index (materials g) m = Inr mat" "mat \<in> set (materials g)"
      using py_index_ok by blast
    with Cons.prems have "material_refs_ok g mat" by (simp add: list_all_iff)
    then have "material_image g mat = Inr (resolve_material g mat)" by (rule material_image_total)
    with Some mat Cons show ?thesis by (cases "resolve_material g mat") auto
  qed
qed

lemma scan_meshes_resolve:
  "scan_meshes g ms = Inr r \<Longrightarrow>
   r = first_some (concat (map (\<lambda>m. map (resolve_primitive g) (primitives m)) (filter is_head ms)))"
proof (induction ms)
  case Nil
  then show ?case by simp
next
  case (Cons m ms)
  then show ?case
    by (auto simp: first_some_append split: if_splits option.splits sum.splits
        dest!: scan_primitives_resolve)
qed

lemma scan_meshes_total:
  "list_all (material_refs_ok g) (materials g) \<Longrightarrow>
   list_all (\<lambda>m. list_all (primitive_refs_ok g) (primitives m)) ms \<Longrightarrow>
   \<exists>r. scan_meshes g ms = Inr r"
proof (induction ms)
  case Nil
  then show ?case by simp
next
  case (Cons m ms)
  then obtain r where "scan_primitives g (primitives m) = Inr r"
    using scan_primitives_total by fastforce
  with Cons show ?case by (cases r) auto
qed

lemma scan_materials_resolve:
  "scan_materials g mats = Inr r \<Longrightarrow>
   r = first_some (map (resolve_material g) (filter is_skin mats))"
proof (induction mats)
  case Nil
  then show ?case by simp
next
  case (Cons m ms)
  then show ?case
    by (auto simp: material_image_resolve split: if_splits option.splits sum.splits)
qed

lemma scan_materials_total:
  "list_all (material_refs_ok g) mats \<Longrightarrow> \<exists>r. scan_materials g mats = Inr r"
proof (induction mats)
  case Nil
  then show ?case by simp
next
  case (Cons m ms)
  then have "material_image g m = Inr (resolve_material g m)"
    by (simp add: material_image_total)
  with Cons show ?case by (cases "resolve_material g m") auto
qed

lemma find_skin_image_index_resolve:
  "find_skin_image_index g = Inr r \<Longrightarrow> r = locate_face_image g"
  by (auto simp: find_skin_image_index_def locate_face_image_def head_candidates_def
      skin_candidates_def split: sum.splits option.splits
      dest!: scan_meshes_resolve scan_materials_resolve)

lemma find_skin_image_index_total:
  assumes "refs_ok g"
  shows "\<exists>r. find_skin_image_index g = Inr r"
proof -
  from assms obtain r1 where r1: "scan_meshes g (meshes g) = Inr r1"
    using scan_meshes_total by (auto simp: refs_ok_def)
  from assms obtain r2 where r2: "scan_materials g (materials g) = Inr r2"
    using scan_materials_total by (auto simp: refs_ok_def)
  from r1 r2 show ?thesis
    by (cases r1) (auto simp: find_skin_image_index_def)
qed

lemma lower_Wolf3D_Head: "lower ''Wolf3D_Head'' = ''wolf3d_head''"
  by (simp add: lower_def lower_char_def char_of_def bit_Suc_0_iff)

lemma Wolf3D_Head_is_head: "is_head \<lparr>mesh_name = Some ''Wolf3D_Head'', primitives = ps\<rparr>"
  by (simp add: is_head_def lower_Wolf3D_Head)

lemma head_template_located: "find_skin_image_index head_template = Inr (Some 0)"
  by (simp add: find_skin_image_index_def head_template_def Wolf3D_Head_is_head
      material_image_def py_index_def)

text \<open>
  C4. On every container the locator returns what the resolution order prescribes: the
  first image index resolved through a primitive of a mesh whose name contains "head"
  (case-insensitively), meshes and primitives in order; only when no such chain
  resolves, the first image index resolved through a material whose name contains
  "skin"; and \<open>None\<close> when neither resolves. This is its result whenever it returns,
  and it returns whenever the material and texture indices of the graph are in range.
  The locator is a function of the container alone: it has no assignment, and the model
  returns no container.
\<close>

theorem locator_resolution_order:
  "(refs_ok g \<longrightarrow> find_skin_image_index g = Inr (locate_face_image g)) \<and>
   (\<forall>r. find_skin_image_index g = Inr r \<longrightarrow> r = locate_face_image g)"
  using find_skin_image_index_total find_skin_image_index_resolve by blast

theorem locator_resolution_order_witness:
  "refs_ok head_template \<and>
   find_skin_image_index head_template = Inr (locate_face_image head_template) \<and>
   find_skin_image_index head_template = Inr (Some 0)"
proof -
  have ok: "refs_ok head_template"
    by (simp add: refs_ok_def head_template_def material_refs_ok_def primitive_refs_ok_def
        index_ok_def)
  have run: "find_skin_image_index head_template = Inr (Some 0)"
    by (rule head_template_located)
  from ok locator_resolution_order [of head_template]
  have "find_skin_image_index head_template = Inr (locate_face_image head_template)"
    by blast
  with ok run show ?thesis by blast
qed

section \<open>The patcher\<close>

lemma slice_bound_int: "slice_bound (int i) n = min i n"
  by (simp add: slice_bound_def)

lemma py_slice_int:
  "py_slice xs (int a) (int b) = take (min b (length xs) - min a (length xs)) (drop (min a (length xs)) xs)"
  by (simp add: py_slice_def slice_bound_int Let_def)

lemma py_slice_assign_int:
  "py_slice_assign xs (int a) (int b) ys =
     take (min a (length xs)) xs @ ys @ drop (max (min a (length xs)) (min b (length xs))) xs"
  by (simp add: py_slice_assign_def slice_bound_int Let_def)

lemma py_index_position:
  "py_index xs i = Inr x \<Longrightarrow> \<exists>p. py_position xs i = Some p \<and> p < length xs \<and> xs ! p = x"
  by (auto simp: py_index_def py_position_def split: if_splits)

lemma py_index_store_at:
  "py_index xs i = Inr x \<Longrightarrow> py_index (store_at xs i v) i = Inr v"
  by (auto simp: py_index_def py_position_def store_at_def split: if_splits)

lemma length_store_at: "length (store_at xs i v) = length xs"
  by (simp add: store_at_def split: option.splits)

lemma store_at_other:
  "py_position xs i \<noteq> Some j \<Longrightarrow> store_at xs i v ! j = xs ! j"
  by (auto simp: store_at_def split: option.splits)


text \<open>The two slice assignments of the in-place branch, one after the other.\<close>

lemma in_place_first:
  assumes "off \<le> length blob"
  shows "py_slice_assign blob (int off) (int (off + length png)) png =
           take off blob @ png @ drop (min (off + length png) (length blob)) blob"
  using assms by (simp only: py_slice_assign_int) (simp add: min_def max_def)

lemma in_place_second:
  assumes "off \<le> length blob" "n \<le> old" "length png = n"
  shows "\<exists>rest. py_slice_assign (take off blob @ png @ tl1) (int (off + n)) (int (off + old)) zs =
           take off blob @ png @ zs @ rest \<and>
           (length tl1 = length blob - (off + n) \<and> off + old \<le> length blob
              \<longrightarrow> rest = drop (old - n) tl1)"
proof -
  let ?b1 = "take off blob @ png @ tl1"
  have len1: "length ?b1 = off + n + length tl1" using assms by simp
  have tk: "take (min (off + n) (length ?b1)) ?b1 = take off blob @ png"
    using assms by simp
  let ?hi = "max (min (off + n) (length ?b1)) (min (off + old) (length ?b1))"
  have eq: "py_slice_assign ?b1 (int (off + n)) (int (off + old)) zs =
        (take off blob @ png) @ zs @ drop ?hi ?b1"
    by (simp only: py_slice_assign_int tk)
  have "drop ?hi ?b1 = drop (old - n) tl1"
    if "length tl1 = length blob - (off + n)" "off + old \<le> length blob"
  proof -
    have hi: "?hi = off + old" using that assms by (simp add: len1 del: length_append)
    have "drop (off + old) ?b1 = drop (old - n) tl1" using assms by simp
    with hi show ?thesis by (simp only:)
  qed
  with eq show ?thesis by auto
qed


lemma pad_step: "n mod 4 \<noteq> 0 \<Longrightarrow> (4 - n mod 4) mod 4 = Suc ((4 - (n + 1) mod 4) mod 4)" for n :: nat
proof -
  assume a: "n mod 4 \<noteq> 0"
  have "n mod 4 < 4" by simp
  with a have c: "n mod 4 = 1 \<or> n mod 4 = 2 \<or> n mod 4 = 3" by linarith
  have s: "(n + 1) mod 4 = (n mod 4 + 1) mod 4" by (rule mod_add_left_eq [symmetric])
  from c show ?thesis
    by (elim disjE) (simp_all only: s, simp_all)
qed

lemma pad_loop_eq:
  "pad_loop blob n =
     (blob @ replicate ((4 - n mod 4) mod 4) 0, n + (4 - n mod 4) mod 4)"
proof (induction blob n rule: pad_loop.induct)
  case (1 blob n)
  show ?case
  proof (cases "n mod 4 = 0")
    case True
    then show ?thesis by (subst pad_loop.simps) simp
  next
    case False
    have "pad_loop blob n = pad_loop (blob @ [0]) (n + 1)"
      using False by (subst pad_loop.simps) simp
    also have "\<dots> = ((blob @ [0]) @ replicate ((4 - (n + 1) mod 4) mod 4) 0,
                     n + 1 + (4 - (n + 1) mod 4) mod 4)"
      using "1.IH" [OF False] .
    finally show ?thesis
      by (simp only: pad_step [OF False] append_assoc append_Cons append_Nil
          replicate_Suc prod.inject add_Suc_right add_Suc add_0_right One_nat_def)
  qed
qed


lemma py_slice_middle:
  "length pre = a \<Longrightarrow> py_slice (pre @ ys @ post) (int a) (int (a + length ys)) = ys"
  by (simp only: py_slice_int) simp

lemma patch_in_place:
  assumes "py_index (images g) idx = Inr img" "img_bufferView img = Some k"
    "py_index (bufferViews g) k = Inr bv" "binary_blob g = Some blob"
    "int (length png) \<le> byteLength bv"
  shows "replace_texture_patch g idx png =
    Inr (g\<lparr>bufferViews := store_at (bufferViews g) k (bv\<lparr>byteLength := int (length png)\<rparr>),
           binary_blob := Some (py_slice_assign
              (py_slice_assign blob (byteOffset bv) (byteOffset bv + int (length png)) png)
              (byteOffset bv + int (length png)) (byteOffset bv + byteLength bv)
              (replicate (nat (byteLength bv - int (length png))) 0)),
           images := store_at (images g) idx (img\<lparr>mimeType := Some ''image/png''\<rparr>)\<rparr>)"
  using assms by (simp add: replace_texture_patch_def Let_def)

lemma patch_relocate:
  assumes "py_index (images g) idx = Inr img" "img_bufferView img = Some k"
    "py_index (bufferViews g) k = Inr bv" "binary_blob g = Some blob"
    "byteLength bv < int (length png)"
  shows "replace_texture_patch g idx png =
    Inr (g\<lparr>bufferViews := store_at (bufferViews g) k
              (bv\<lparr>byteOffset := int (length blob + (4 - length blob mod 4) mod 4),
                  byteLength := int (length png)\<rparr>),
           buffers := (case buffers g of [] \<Rightarrow> []
              | b0 # bs \<Rightarrow> b0\<lparr>buf_byteLength :=
                  int (length ((blob @ replicate ((4 - length blob mod 4) mod 4) 0) @ png))\<rparr> # bs),
           binary_blob := Some ((blob @ replicate ((4 - length blob mod 4) mod 4) 0) @ png),
           images := store_at (images g) idx (img\<lparr>mimeType := Some ''image/png''\<rparr>)\<rparr>)"
  using assms by (simp add: replace_texture_patch_def Let_def pad_loop_eq)

lemma in_place_blob_shape:
  assumes "off \<le> length blob" "length png \<le> old"
  shows "\<exists>rest. py_slice_assign
            (py_slice_assign blob (int off) (int off + int (length png)) png)
            (int off + int (length png)) (int off + int old)
            (replicate (nat (int old - int (length png))) 0) =
           take off blob @ png @ replicate (old - length png) 0 @ rest \<and>
           (off + old \<le> length blob \<longrightarrow> rest = drop (off + old) blob)"
proof -
  let ?n = "length png"
  let ?tl = "drop (min (off + ?n) (length blob)) blob"
  have z: "nat (int old - int ?n) = old - ?n" by simp
  from in_place_second [OF assms(1) assms(2) refl, of ?tl "replicate (old - ?n) 0"]
  obtain rest where r:
    "py_slice_assign (take off blob @ png @ ?tl) (int (off + ?n)) (int (off + old))
       (replicate (old - ?n) 0) = take off blob @ png @ replicate (old - ?n) 0 @ rest"
    "length ?tl = length blob - (off + ?n) \<and> off + old \<le> length blob
       \<longrightarrow> rest = drop (old - ?n) ?tl"
    by blast
  have "off + old \<le> length blob \<longrightarrow> rest = drop (off + old) blob"
  proof
    assume le: "off + old \<le> length blob"
    with assms have "length ?tl = length blob - (off + ?n)" by simp
    with r(2) le have "rest = drop (old - ?n) ?tl" by blast
    also have "\<dots> = drop (off + old) blob" using le assms by (simp add: min_absorb1 add.commute)
    finally show "rest = drop (off + old) blob" .
  qed
  with r(1) show ?thesis
    unfolding z of_nat_add [symmetric] in_place_first [OF assms(1), symmetric] by blast
qed


text \<open>
  C1. In-place case. The located image's buffer view \<open>bv\<close> starts inside the blob and
  the PNG is no longer than the view. Then the patch succeeds, and in the new blob the
  bytes from the view's offset on are the PNG, the rest of the old slot up to offset +
  old length is zero, the view's length is the PNG's length and its offset is unchanged.
\<close>

theorem in_place_patch_writes_slot:
  assumes "py_index (images g) idx = Inr img" "img_bufferView img = Some k"
    "py_index (bufferViews g) k = Inr bv" "binary_blob g = Some blob"
    "0 \<le> byteOffset bv" "byteOffset bv \<le> int (length blob)"
    "int (length png) \<le> byteLength bv"
  shows "\<exists>g' blob' bv'.
           replace_texture_patch g idx png = Inr g' \<and>
           binary_blob g' = Some blob' \<and>
           py_index (bufferViews g') k = Inr bv' \<and>
           py_slice blob' (byteOffset bv) (byteOffset bv + int (length png)) = png \<and>
           py_slice blob' (byteOffset bv + int (length png)) (byteOffset bv + byteLength bv) =
             replicate (nat (byteLength bv - int (length png))) 0 \<and>
           byteLength bv' = int (length png) \<and>
           byteOffset bv' = byteOffset bv"
proof -
  obtain off where off: "byteOffset bv = int off" "off \<le> length blob"
    using assms(5,6) by (metis nat_le_iff nat_0_le)
  obtain old where old: "byteLength bv = int old" "length png \<le> old"
    using assms(7) by (metis nat_le_iff nat_0_le of_nat_0_le_iff order_trans nat_int)
  from in_place_blob_shape [OF off(2) old(2)] obtain rest where
    shape: "py_slice_assign
            (py_slice_assign blob (int off) (int off + int (length png)) png)
            (int off + int (length png)) (int off + int old)
            (replicate (nat (int old - int (length png))) 0) =
           take off blob @ png @ replicate (old - length png) 0 @ rest"
    by blast
  let ?blob' = "take off blob @ png @ replicate (old - length png) 0 @ rest"
  let ?bv' = "bv\<lparr>byteLength := int (length png)\<rparr>"
  let ?g' = "g\<lparr>bufferViews := store_at (bufferViews g) k ?bv',
               binary_blob := Some ?blob',
               images := store_at (images g) idx (img\<lparr>mimeType := Some ''image/png''\<rparr>)\<rparr>"
  have run: "replace_texture_patch g idx png = Inr ?g'"
    using patch_in_place [OF assms(1-4) assms(7)] shape by (simp only: off old)
  have r1: "py_slice ?blob' (int off) (int (off + length png)) = png"
    using off(2) by (intro py_slice_middle) simp
  have "py_slice ((take off blob @ png) @ replicate (old - length png) 0 @ rest)
          (int (off + length png)) (int ((off + length png) + length (replicate (old - length png) (0::byte))))
        = replicate (old - length png) 0"
    using off(2) by (intro py_slice_middle) simp
  then have r2: "py_slice ?blob' (int (off + length png)) (int (off + old)) =
                   replicate (old - length png) 0"
    using old(2) by simp
  have z: "nat (int old - int (length png)) = old - length png" by simp
  have bvs: "py_index (bufferViews ?g') k = Inr ?bv'"
    using py_index_store_at [OF assms(3)] by simp
  have "binary_blob ?g' = Some ?blob'" by simp
  moreover have "byteLength ?bv' = int (length png)" "byteOffset ?bv' = byteOffset bv" by simp_all
  ultimately show ?thesis
    using run bvs r1 r2 unfolding off(1) old(1) z of_nat_add [symmetric] by blast
qed


text \<open>
  C2. In-place case, frame. The view's byte range lies within the blob (the container
  invariant of the data model) and the PNG is no longer than the view. Then the blob
  keeps its length, the list of buffer views keeps its length, and every buffer view
  other than the patched one is the same record as before (offset and length included).
\<close>

theorem in_place_patch_frame:
  assumes "py_index (images g) idx = Inr img" "img_bufferView img = Some k"
    "py_index (bufferViews g) k = Inr bv" "binary_blob g = Some blob"
    "0 \<le> byteOffset bv" "byteOffset bv + byteLength bv \<le> int (length blob)"
    "int (length png) \<le> byteLength bv"
  shows "\<exists>g' blob'.
           replace_texture_patch g idx png = Inr g' \<and>
           binary_blob g' = Some blob' \<and>
           length blob' = length blob \<and>
           length (bufferViews g') = length (bufferViews g) \<and>
           (\<forall>j < length (bufferViews g).
              py_position (bufferViews g) k \<noteq> Some j \<longrightarrow> bufferViews g' ! j = bufferViews g ! j)"
proof -
  obtain off where off: "byteOffset bv = int off"
    using assms(5) by (metis nat_0_le)
  obtain old where old: "byteLength bv = int old" "length png \<le> old"
    using assms(7) by (metis nat_le_iff nat_0_le of_nat_0_le_iff order_trans nat_int)
  have fit: "off + old \<le> length blob"
    using assms(6) unfolding off old(1) by linarith
  then have offle: "off \<le> length blob" by simp
  from in_place_blob_shape [OF offle old(2)] fit obtain rest where
    shape: "py_slice_assign
            (py_slice_assign blob (int off) (int off + int (length png)) png)
            (int off + int (length png)) (int off + int old)
            (replicate (nat (int old - int (length png))) 0) =
           take off blob @ png @ replicate (old - length png) 0 @ rest"
    and rest: "rest = drop (off + old) blob"
    by blast
  let ?blob' = "take off blob @ png @ replicate (old - length png) 0 @ rest"
  let ?bv' = "bv\<lparr>byteLength := int (length png)\<rparr>"
  let ?g' = "g\<lparr>bufferViews := store_at (bufferViews g) k ?bv',
               binary_blob := Some ?blob',
               images := store_at (images g) idx (img\<lparr>mimeType := Some ''image/png''\<rparr>)\<rparr>"
  have run: "replace_texture_patch g idx png = Inr ?g'"
    using patch_in_place [OF assms(1-4) assms(7)] shape by (simp only: off old)
  have len: "length ?blob' = length blob"
    using fit old(2) by (simp add: rest)
  have "binary_blob ?g' = Some ?blob'" by simp
  moreover have "length (bufferViews ?g') = length (bufferViews g)"
    by (simp add: length_store_at)
  moreover have "\<forall>j < length (bufferViews g).
      py_position (bufferViews g) k \<noteq> Some j \<longrightarrow> bufferViews ?g' ! j = bufferViews g ! j"
    by (simp add: store_at_other)
  ultimately show ?thesis using run len by blast
qed


lemma pad_aligned: "(n + (4 - n mod 4) mod 4) mod 4 = (0::nat)"
proof -
  have "n mod 4 < 4" by simp
  then have c: "n mod 4 = 0 \<or> n mod 4 = 1 \<or> n mod 4 = 2 \<or> n mod 4 = 3" by linarith
  have s: "(n + k) mod 4 = (n mod 4 + k) mod 4" for k by (rule mod_add_left_eq [symmetric])
  from c show ?thesis by (elim disjE) (simp_all only: s, simp_all)
qed

lemma pad_aligned_int: "int (n + (4 - n mod 4) mod 4) mod 4 = 0"
proof -
  have "int ((n + (4 - n mod 4) mod 4) mod 4) = 0" by (simp only: pad_aligned)
  then show ?thesis by (simp only: zmod_int of_nat_numeral)
qed

text \<open>
  C3. Relocate case. The PNG is longer than the view, and the view belongs to buffer 0,
  the buffer of the binary blob, which exists. Then the new blob is the old one, fewer
  than four zero bytes up to the next multiple of 4, and the PNG; the view's offset is
  that padded length, a multiple of 4; its length is the PNG's length; and the declared
  length of the view's buffer is the length of the new blob.
\<close>

theorem relocate_patch_appends_aligned:
  assumes "py_index (images g) idx = Inr img" "img_bufferView img = Some k"
    "py_index (bufferViews g) k = Inr bv" "binary_blob g = Some blob"
    "byteLength bv < int (length png)"
    "buffers g \<noteq> []" "bv_buffer bv = 0"
  shows "\<exists>g' bv' owner pad.
           replace_texture_patch g idx png = Inr g' \<and>
           pad < 4 \<and> (length blob + pad) mod 4 = 0 \<and>
           binary_blob g' = Some (blob @ replicate pad 0 @ png) \<and>
           py_index (bufferViews g') k = Inr bv' \<and>
           byteOffset bv' = int (length blob + pad) \<and>
           byteOffset bv' mod 4 = 0 \<and>
           byteLength bv' = int (length png) \<and>
           py_index (buffers g') (bv_buffer bv') = Inr owner \<and>
           buf_byteLength owner = int (length (blob @ replicate pad 0 @ png))"
proof -
  let ?pad = "(4 - length blob mod 4) mod 4"
  let ?blob' = "(blob @ replicate ?pad 0) @ png"
  let ?bv' = "bv\<lparr>byteOffset := int (length blob + ?pad), byteLength := int (length png)\<rparr>"
  obtain b0 bs where bufs: "buffers g = b0 # bs"
    using assms(6) by (cases "buffers g") auto
  let ?owner = "b0\<lparr>buf_byteLength := int (length ?blob')\<rparr>"
  let ?g' = "g\<lparr>bufferViews := store_at (bufferViews g) k ?bv',
               buffers := ?owner # bs,
               binary_blob := Some ?blob',
               images := store_at (images g) idx (img\<lparr>mimeType := Some ''image/png''\<rparr>)\<rparr>"
  have run: "replace_texture_patch g idx png = Inr ?g'"
    using patch_relocate [OF assms(1-5)] by (simp add: bufs)
  have pad: "?pad < 4" by simp
  have al: "(length blob + ?pad) mod 4 = 0" by (rule pad_aligned)
  have al': "int (length blob + ?pad) mod 4 = 0" by (rule pad_aligned_int)
  have bvs: "py_index (bufferViews ?g') k = Inr ?bv'"
    using py_index_store_at [OF assms(3)] by simp
  have own: "py_index (buffers ?g') (bv_buffer ?bv') = Inr ?owner"
    by (simp add: assms(7) py_index_def)
  have b: "binary_blob ?g' = Some (blob @ replicate ?pad 0 @ png)" by simp
  have o1: "byteOffset ?bv' = int (length blob + ?pad)" by simp
  have o2: "byteOffset ?bv' mod 4 = 0" using al' by (simp del: of_nat_add)
  have l1: "byteLength ?bv' = int (length png)" by simp
  have l2: "buf_byteLength ?owner = int (length (blob @ replicate ?pad 0 @ png))" by simp
  show ?thesis
    by (intro exI conjI)
      (rule run, rule pad, rule al, rule b, rule bvs, rule o1, rule o2, rule l1, rule own, rule l2)
qed


lemma head_template_image:
  "py_index (images head_template) 0 = Inr \<lparr>img_bufferView = Some 1, mimeType = Some ''image/jpeg''\<rparr>"
  by (simp add: head_template_def py_index_def)

lemma head_template_view:
  "py_index (bufferViews head_template) 1 =
     Inr \<lparr>bv_buffer = 0, byteOffset = 4, byteLength = 5, bv_target = None\<rparr>"
  by (simp add: head_template_def py_index_def)

lemma head_template_blob:
  "binary_blob head_template = Some [1, 2, 3, 4, 9, 9, 9, 9, 9, 0, 0, 0, 5, 6]"
  by (simp add: head_template_def)

theorem in_place_patch_writes_slot_witness:
  "\<exists>g' blob' bv'.
     replace_texture_patch head_template 0 [7, 7, 7] = Inr g' \<and>
     binary_blob g' = Some blob' \<and>
     py_index (bufferViews g') 1 = Inr bv' \<and>
     py_slice blob' 4 (4 + int (length [7, 7, 7 :: byte])) = [7, 7, 7] \<and>
     py_slice blob' (4 + int (length [7, 7, 7 :: byte])) (4 + 5) =
       replicate (nat (5 - int (length [7, 7, 7 :: byte]))) 0 \<and>
     byteLength bv' = int (length [7, 7, 7 :: byte]) \<and>
     byteOffset bv' = 4"
proof -
  let ?bv = "\<lparr>bv_buffer = 0, byteOffset = 4, byteLength = 5, bv_target = None\<rparr>"
  have a: "img_bufferView \<lparr>img_bufferView = Some 1, mimeType = Some ''image/jpeg''\<rparr> = Some 1"
    by simp
  have b: "0 \<le> byteOffset ?bv" by simp
  have c: "byteOffset ?bv \<le> int (length [1, 2, 3, 4, 9, 9, 9, 9, 9, 0, 0, 0, 5, 6 :: byte])" by simp
  have d: "int (length [7, 7, 7 :: byte]) \<le> byteLength ?bv" by simp
  have e: "byteOffset ?bv = 4" "byteLength ?bv = 5" by simp_all
  from in_place_patch_writes_slot
         [OF head_template_image a head_template_view head_template_blob b c d]
  show ?thesis unfolding e .
qed

theorem in_place_patch_frame_witness:
  "\<exists>g' blob'.
     replace_texture_patch head_template 0 [7, 7, 7] = Inr g' \<and>
     binary_blob g' = Some blob' \<and>
     length blob' = length [1, 2, 3, 4, 9, 9, 9, 9, 9, 0, 0, 0, 5, 6 :: byte] \<and>
     length (bufferViews g') = length (bufferViews head_template) \<and>
     (\<forall>j < length (bufferViews head_template).
        py_position (bufferViews head_template) 1 \<noteq> Some j \<longrightarrow>
        bufferViews g' ! j = bufferViews head_template ! j)"
proof -
  let ?bv = "\<lparr>bv_buffer = 0, byteOffset = 4, byteLength = 5, bv_target = None\<rparr>"
  have a: "img_bufferView \<lparr>img_bufferView = Some 1, mimeType = Some ''image/jpeg''\<rparr> = Some 1"
    by simp
  have b: "0 \<le> byteOffset ?bv" by simp
  have c: "byteOffset ?bv + byteLength ?bv
             \<le> int (length [1, 2, 3, 4, 9, 9, 9, 9, 9, 0, 0, 0, 5, 6 :: byte])" by simp
  have d: "int (length [7, 7, 7 :: byte]) \<le> byteLength ?bv" by simp
  from in_place_patch_frame
         [OF head_template_image a head_template_view head_template_blob b c d]
  show ?thesis .
qed

theorem relocate_patch_appends_aligned_witness:
  "\<exists>g' bv' owner pad.
     replace_texture_patch head_template 0 [7, 7, 7, 7, 7, 7] = Inr g' \<and>
     pad < 4 \<and> (length [1, 2, 3, 4, 9, 9, 9, 9, 9, 0, 0, 0, 5, 6 :: byte] + pad) mod 4 = 0 \<and>
     binary_blob g' =
       Some ([1, 2, 3, 4, 9, 9, 9, 9, 9, 0, 0, 0, 5, 6] @ replicate pad 0 @ [7, 7, 7, 7, 7, 7]) \<and>
     py_index (bufferViews g') 1 = Inr bv' \<and>
     byteOffset bv' = int (length [1, 2, 3, 4, 9, 9, 9, 9, 9, 0, 0, 0, 5, 6 :: byte] + pad) \<and>
     byteOffset bv' mod 4 = 0 \<and>
     byteLength bv' = int (length [7, 7, 7, 7, 7, 7 :: byte]) \<and>
     py_index (buffers g') (bv_buffer bv') = Inr owner \<and>
     buf_byteLength owner =
       int (length ([1, 2, 3, 4, 9, 9, 9, 9, 9, 0, 0, 0, 5, 6 :: byte] @ replicate pad 0 @
                    [7, 7, 7, 7, 7, 7]))"
proof -
  let ?bv = "\<lparr>bv_buffer = 0, byteOffset = 4, byteLength = 5, bv_target = None\<rparr>"
  have a: "img_bufferView \<lparr>img_bufferView = Some 1, mimeType = Some ''image/jpeg''\<rparr> = Some 1"
    by simp
  have b: "byteLength ?bv < int (length [7, 7, 7, 7, 7, 7 :: byte])" by simp
  have c: "buffers head_template \<noteq> []" by (simp add: head_template_def)
  have d: "bv_buffer ?bv = 0" by simp
  from relocate_patch_appends_aligned
         [OF head_template_image a head_template_view head_template_blob b c d]
  show ?thesis .
qed

section \<open>Failures of the patch path\<close>

lemma scan_meshes_no_head:
  "list_all (\<lambda>m. \<not> is_head m) ms \<Longrightarrow> scan_meshes g ms = Inr None"
  by (induction ms) simp_all

lemma scan_materials_no_skin:
  "list_all (\<lambda>m. \<not> is_skin m) mats \<Longrightarrow> scan_materials g mats = Inr None"
  by (induction mats) simp_all

lemma not_found_run:
  assumes "pygltflib_installed env" "load_glb fsys template_path = Inr g"
    "list_all (\<lambda>m. \<not> is_head m) (meshes g)" "list_all (\<lambda>m. \<not> is_skin m) (materials g)"
  shows "find_skin_image_index g = Inr None"
    and "replace_texture_in_glb env fsys template_path warped_face face_mask output_path =
           (Inr False, [''Error: No suitable face/skin texture found in template GLB''], fsys)"
proof -
  show none: "find_skin_image_index g = Inr None"
    using assms(3,4) by (simp add: find_skin_image_index_def scan_meshes_no_head
        scan_materials_no_skin)
  then show "replace_texture_in_glb env fsys template_path warped_face face_mask output_path =
           (Inr False, [''Error: No suitable face/skin texture found in template GLB''], fsys)"
    using assms(1,2) by (simp add: replace_texture_in_glb_def)
qed

text \<open>
  C6. The template loads, no mesh name contains "head" and no material name contains
  "skin" (case-insensitively). Then the locator returns \<open>None\<close> and the patch path
  returns False after the line "No suitable face/skin texture found" on stderr, with the
  file system exactly as it was: nothing is written to the output path.
\<close>

theorem no_match_signals_not_found:
  assumes "pygltflib_installed env" "load_glb fsys template_path = Inr g"
    "list_all (\<lambda>m. \<not> is_head m) (meshes g)" "list_all (\<lambda>m. \<not> is_skin m) (materials g)"
  shows "find_skin_image_index g = Inr None \<and>
         replace_texture_in_glb env fsys template_path warped_face face_mask output_path =
           (Inr False, [''Error: No suitable face/skin texture found in template GLB''], fsys)"
  using not_found_run [OF assms] by blast

lemma lower_Wolf3D_Body: "lower ''Wolf3D_Body'' = ''wolf3d_body''"
  by (simp add: lower_def lower_char_def char_of_def bit_Suc_0_iff)

lemma lower_Cloth: "lower ''Cloth'' = ''cloth''"
  by (simp add: lower_def lower_char_def char_of_def bit_Suc_0_iff)

lemma body_template_no_head: "list_all (\<lambda>m. \<not> is_head m) (meshes body_template)"
  by (simp add: body_template_def is_head_def lower_Wolf3D_Body)

lemma body_template_no_skin: "list_all (\<lambda>m. \<not> is_skin m) (materials body_template)"
  by (simp add: body_template_def is_skin_def lower_Cloth)

lemma load_disk_with: "load_glb (disk_with g) ''template.glb'' = Inr g"
  by (simp add: load_glb_def disk_with_def)

lemma toy_installed: "pygltflib_installed toy_codecs"
  by (simp add: toy_codecs_def)

theorem no_match_signals_not_found_witness:
  "list_all (\<lambda>m. \<not> is_head m) (meshes body_template) \<and>
   list_all (\<lambda>m. \<not> is_skin m) (materials body_template) \<and>
   find_skin_image_index body_template = Inr None \<and>
   replace_texture_in_glb toy_codecs (disk_with body_template) ''template.glb''
       [[(1, 2, 3)]] [[255]] ''out.glb'' =
     (Inr False, [''Error: No suitable face/skin texture found in template GLB''],
      disk_with body_template) \<and>
   files (disk_with body_template) ''out.glb'' = None"
proof -
  have "files (disk_with body_template) ''out.glb'' = None"
    by (simp add: disk_with_def)
  with no_match_signals_not_found
         [OF toy_installed load_disk_with body_template_no_head body_template_no_skin]
       body_template_no_head body_template_no_skin
  show ?thesis by blast
qed


lemma extract_without_blob:
  assumes "binary_blob g = None"
  shows "extract_glb_image env g i =
     (case py_index (images g) i of
        Inl e \<Rightarrow> Inl e
      | Inr img \<Rightarrow>
          (case img_bufferView img of
             None \<Rightarrow> Inr None
           | Some k \<Rightarrow>
               (case py_index (bufferViews g) k of Inl e \<Rightarrow> Inl e | Inr bv \<Rightarrow> Inl TypeError)))"
  using assms by (simp add: extract_glb_image_def split: sum.splits option.splits)

lemma extract_without_blob_no_image:
  "binary_blob g = None \<Longrightarrow> extract_glb_image env g i \<noteq> Inr (Some px)"
  by (simp add: extract_without_blob split: sum.splits option.splits)

lemma replace_texture_after_locate:
  assumes "pygltflib_installed env" "load_glb fsys template_path = Inr g"
    "find_skin_image_index g = Inr (Some i)"
  shows "replace_texture_in_glb env fsys template_path warped_face face_mask output_path =
     (case extract_glb_image env g i of
        Inl e \<Rightarrow> (Inl e, [], fsys)
      | Inr None \<Rightarrow> (Inr False, [''Error: Could not extract original skin texture''], fsys)
      | Inr (Some original) \<Rightarrow>
          (case composite_png env warped_face face_mask original of
             Inl e \<Rightarrow> (Inl e, [], fsys)
           | Inr png_bytes \<Rightarrow>
               (case replace_texture_patch g i png_bytes of
                  Inl e \<Rightarrow> (Inl e, [], fsys)
                | Inr g' \<Rightarrow>
                    (case write_file fsys output_path (GlbFile g') of
                       Inl e \<Rightarrow> (Inl e, [], fsys)
                     | Inr fsys' \<Rightarrow> (Inr True, [], fsys')))))"
  using assms by (simp add: replace_texture_in_glb_def)

text \<open>
  The outcomes of the patch path on a template that loads and has no binary blob. It
  never succeeds and never writes. It returns False with an error line when the locator
  resolves nothing or when the located image has no buffer view; when image and buffer
  view resolve, the slice of \<open>None\<close> at line 197 raises TypeError, which nothing
  catches.
\<close>

lemma missing_blob_outcomes:
  assumes "pygltflib_installed env" "load_glb fsys template_path = Inr g"
    "binary_blob g = None"
  shows "\<exists>r msgs.
     replace_texture_in_glb env fsys template_path warped_face face_mask output_path =
       (r, msgs, fsys) \<and>
     r \<noteq> Inr True \<and>
     (find_skin_image_index g = Inr None \<longrightarrow>
        r = Inr False \<and>
        msgs = [''Error: No suitable face/skin texture found in template GLB'']) \<and>
     (\<forall>i img. find_skin_image_index g = Inr (Some i) \<and> py_index (images g) i = Inr img \<longrightarrow>
        (img_bufferView img = None \<longrightarrow>
           r = Inr False \<and> msgs = [''Error: Could not extract original skin texture'']) \<and>
        (\<forall>k bv. img_bufferView img = Some k \<and> py_index (bufferViews g) k = Inr bv \<longrightarrow>
           r = Inl TypeError \<and> msgs = []))"
proof (cases "find_skin_image_index g")
  case (Inl e)
  then show ?thesis using assms(1,2) by (simp add: replace_texture_in_glb_def)
next
  case (Inr found)
  show ?thesis
  proof (cases found)
    case None
    with Inr show ?thesis using assms(1,2) by (simp add: replace_texture_in_glb_def)
  next
    case (Some i)
    with Inr have loc: "find_skin_image_index g = Inr (Some i)" by simp
    note run = replace_texture_after_locate [OF assms(1,2) loc, of warped_face face_mask output_path]
    note ex = extract_without_blob [OF assms(3), of env i]
    show ?thesis
    proof (cases "py_index (images g) i")
      case (Inl e)
      then show ?thesis using loc by (simp add: run ex)
    next
      case img: (Inr img)
      show ?thesis
      proof (cases "img_bufferView img")
        case None
        then show ?thesis using loc img by (simp add: run ex)
      next
        case k: (Some k)
        show ?thesis
        proof (cases "py_index (bufferViews g) k")
          case (Inl e)
          then show ?thesis using loc img k by (simp add: run ex)
        next
          case (Inr bv)
          then show ?thesis using loc img k by (simp add: run ex)
        qed
      qed
    qed
  qed
qed


lemma blobless_head_located: "find_skin_image_index blobless_head_template = Inr (Some 0)"
  by (simp add: find_skin_image_index_def blobless_head_template_def head_template_def
      Wolf3D_Head_is_head material_image_def py_index_def)

text \<open>
  C5. A template whose face image resolves (mesh Wolf3D\_Head, material Skin, image 0 in
  buffer view 1) but which has no binary blob: the patch path writes nothing, as the
  claim says, but it does not end in a reported failure. The exception TypeError leaves
  replace\_texture\_in\_glb, where the sibling failures at lines 216, 222 and 228 print
  an error line and return False, and where the guard of line 258, written for this very
  case, is never reached.
\<close>

theorem missing_blob_raises_type_error:
  "binary_blob blobless_head_template = None \<and>
   replace_texture_in_glb toy_codecs (disk_with blobless_head_template) ''template.glb''
       [[(1, 2, 3)]] [[255]] ''out.glb'' =
     (Inl TypeError, [], disk_with blobless_head_template) \<and>
   files (disk_with blobless_head_template) ''out.glb'' = None"
proof -
  have nb: "binary_blob blobless_head_template = None"
    by (simp add: blobless_head_template_def)
  have img: "py_index (images blobless_head_template) 0 =
               Inr \<lparr>img_bufferView = Some 1, mimeType = Some ''image/jpeg''\<rparr>"
    by (simp add: blobless_head_template_def head_template_def py_index_def)
  have bv: "py_index (bufferViews blobless_head_template) 1 =
              Inr \<lparr>bv_buffer = 0, byteOffset = 4, byteLength = 5, bv_target = None\<rparr>"
    by (simp add: blobless_head_template_def head_template_def py_index_def)
  have k: "img_bufferView \<lparr>img_bufferView = Some 1, mimeType = Some ''image/jpeg''\<rparr> = Some 1"
    by simp
  have out: "files (disk_with blobless_head_template) ''out.glb'' = None"
    by (simp add: disk_with_def)
  from missing_blob_outcomes [OF toy_installed load_disk_with nb,
         of "[[(1, 2, 3)]]" "[[255]]" "''out.glb''"]
  obtain r msgs where
    run: "replace_texture_in_glb toy_codecs (disk_with blobless_head_template) ''template.glb''
            [[(1, 2, 3)]] [[255]] ''out.glb'' = (r, msgs, disk_with blobless_head_template)"
    and sel: "\<forall>i img. find_skin_image_index blobless_head_template = Inr (Some i) \<and>
                py_index (images blobless_head_template) i = Inr img \<longrightarrow>
        (img_bufferView img = None \<longrightarrow>
           r = Inr False \<and> msgs = [''Error: Could not extract original skin texture'']) \<and>
        (\<forall>k bv. img_bufferView img = Some k \<and>
                py_index (bufferViews blobless_head_template) k = Inr bv \<longrightarrow>
           r = Inl TypeError \<and> msgs = [])"
    by blast
  from sel blobless_head_located img k bv have "r = Inl TypeError \<and> msgs = []" by blast
  with run nb out show ?thesis by simp
qed

section \<open>The standalone builder\<close>

lemma and_not_3: "(x::int) AND NOT 3 = x div 4 * 4"
proof -
  have m: "(3::int) = mask 2" by (simp add: mask_eq_exp_minus_1)
  have h: "Suc (Suc (n - 2)) = n" if "2 \<le> n" for n using that by simp
  have "x AND NOT (mask 2) = push_bit 2 (drop_bit 2 x)"
    by (rule bit_eqI) (auto simp: bit_simps h not_less)
  then show ?thesis
    by (simp only: m push_bit_eq_mult drop_bit_eq_div) simp
qed

lemma align4_eq: "align4 n = (n + 3) div 4 * 4"
  by (simp only: align4_def and_not_3)

lemma align4_bounds: "n \<le> align4 n \<and> align4 n < n + 4 \<and> align4 n mod 4 = 0"
  unfolding align4_eq by (simp, linarith)


lemma indices_bytes_length: "length (concat (map u16_le indices)) = 12"
  by (simp add: indices_def u16_le_def)

lemma vertices_bytes_length: "length (concat (map u32_le (concat vertices))) = 48"
  by (simp add: vertices_def u32_le_def)

lemma uvs_bytes_length: "length (concat (map u32_le (concat uvs))) = 32"
  by (simp add: uvs_def u32_le_def)

lemma align4_numerals: "align4 12 = 12" "align4 48 = 48" "align4 32 = 32"
  by (simp_all add: align4_def)

lemma standalone_gltf_blob: "binary_blob (standalone_gltf png) = Some (standalone_blob png)"
  by (simp add: standalone_gltf_def standalone_blob_def Let_def indices_bytes_length
      vertices_bytes_length uvs_bytes_length align4_numerals)

lemma standalone_gltf_buffers:
  "buffers (standalone_gltf png) = [\<lparr>buf_byteLength = int (length (standalone_blob png))\<rparr>]"
  by (simp add: standalone_gltf_def standalone_blob_def Let_def indices_bytes_length
      vertices_bytes_length uvs_bytes_length align4_numerals)

lemma standalone_gltf_views:
  "bufferViews (standalone_gltf png) =
     [\<lparr>bv_buffer = 0, byteOffset = 0, byteLength = 12, bv_target = Some 34963\<rparr>,
      \<lparr>bv_buffer = 0, byteOffset = 12, byteLength = 48, bv_target = Some 34962\<rparr>,
      \<lparr>bv_buffer = 0, byteOffset = 60, byteLength = 32, bv_target = Some 34962\<rparr>,
      \<lparr>bv_buffer = 0, byteOffset = 92, byteLength = int (length png), bv_target = None\<rparr>]"
  by (simp add: standalone_gltf_def Let_def indices_bytes_length
      vertices_bytes_length uvs_bytes_length align4_numerals)

lemma standalone_blob_length:
  "int (length (standalone_blob png)) = 92 + align4 (int (length png))"
  using align4_bounds [of "int (length png)"]
  by (simp add: standalone_blob_def indices_bytes_length vertices_bytes_length uvs_bytes_length)


lemma py_slice_at:
  assumes "a = int (length pre)" "b = a + int (length ys)"
  shows "py_slice (pre @ ys @ post) a b = ys"
proof -
  have "py_slice (pre @ ys @ post) (int (length pre)) (int (length pre + length ys)) = ys"
    by (rule py_slice_middle) simp
  then show ?thesis using assms by (simp only: of_nat_add)
qed

lemma standalone_blob_slices:
  "py_slice (standalone_blob png) 0 12 = concat (map u16_le indices)"
  "py_slice (standalone_blob png) 12 60 = concat (map u32_le (concat vertices))"
  "py_slice (standalone_blob png) 60 92 = concat (map u32_le (concat uvs))"
  "py_slice (standalone_blob png) 92 (92 + int (length png)) = png"
proof -
  let ?ib = "concat (map u16_le indices)"
  let ?vb = "concat (map u32_le (concat vertices))"
  let ?ub = "concat (map u32_le (concat uvs))"
  let ?pad = "replicate (nat (align4 (int (length png)) - int (length png))) (0::byte)"
  have "py_slice ([] @ ?ib @ (?vb @ ?ub @ png @ ?pad)) 0 12 = ?ib"
    by (rule py_slice_at) (simp_all add: indices_bytes_length)
  then show "py_slice (standalone_blob png) 0 12 = ?ib"
    by (simp only: standalone_blob_def append_Nil)
  have "py_slice (?ib @ ?vb @ (?ub @ png @ ?pad)) 12 60 = ?vb"
    by (rule py_slice_at) (simp_all add: indices_bytes_length vertices_bytes_length)
  then show "py_slice (standalone_blob png) 12 60 = ?vb"
    by (simp only: standalone_blob_def)
  have "py_slice ((?ib @ ?vb) @ ?ub @ (png @ ?pad)) 60 92 = ?ub"
    by (rule py_slice_at)
      (simp_all add: indices_bytes_length vertices_bytes_length uvs_bytes_length)
  then show "py_slice (standalone_blob png) 60 92 = ?ub"
    by (simp only: standalone_blob_def append_assoc)
  have "py_slice ((?ib @ ?vb @ ?ub) @ png @ ?pad) 92 (92 + int (length png)) = png"
    by (rule py_slice_at)
      (simp_all add: indices_bytes_length vertices_bytes_length uvs_bytes_length)
  then show "py_slice (standalone_blob png) 92 (92 + int (length png)) = png"
    by (simp only: standalone_blob_def append_assoc)
qed

lemma standalone_success:
  assumes "generate_standalone_avatar env fsys image_path face_texture output_path =
             (Inr True, fsys')"
  shows "\<exists>png fsys1.
           png_encode env face_texture = Inr png \<and>
           write_file fsys (replace_glb_png output_path) (PngFile png) = Inr fsys1 \<and>
           write_file fsys1 output_path (GlbFile (standalone_gltf png)) = Inr fsys'"
  using assms
  by (auto simp: generate_standalone_avatar_def standalone_try_def Let_def
      split: sum.splits if_splits)

lemma write_file_read:
  "write_file fsys path content = Inr fsys' \<Longrightarrow> files fsys' path = Some content"
  by (auto simp: write_file_def split: if_splits)

text \<open>
  Whenever the builder returns True, the container it handed to \<open>gltf.save\<close> for the
  output path is \<open>standalone_gltf\<close> of the encoded PNG.
\<close>

lemma standalone_saved_container:
  assumes "generate_standalone_avatar env fsys image_path face_texture output_path =
             (Inr True, fsys')"
  shows "\<exists>png. png_encode env face_texture = Inr png \<and>
               files fsys' output_path = Some (GlbFile (standalone_gltf png))"
proof -
  from standalone_success [OF assms] obtain png fsys1 where
    enc: "png_encode env face_texture = Inr png" and
    wr: "write_file fsys1 output_path (GlbFile (standalone_gltf png)) = Inr fsys'"
    by blast
  from enc write_file_read [OF wr] show ?thesis by blast
qed

text \<open>
  C9. The container the standalone builder constructs (lines 380--485), for any PNG
  bytes: one buffer whose declared length is the length of the blob, and four buffer
  views at offsets 0, 12, 60 and 92, each starting where the one before ends, holding
  the 12 index bytes, the 48 position bytes, the 32 UV bytes and the PNG. Every offset
  is a multiple of 4, every view lies within the declared length, and the blob ends at
  the next multiple of 4 after the PNG.
\<close>

theorem standalone_layout:
  "\<exists>blob.
     binary_blob (standalone_gltf png) = Some blob \<and>
     buffers (standalone_gltf png) = [\<lparr>buf_byteLength = int (length blob)\<rparr>] \<and>
     map byteOffset (bufferViews (standalone_gltf png)) = [0, 12, 60, 92] \<and>
     map byteLength (bufferViews (standalone_gltf png)) = [12, 48, 32, int (length png)] \<and>
     py_slice blob 0 12 = concat (map u16_le indices) \<and>
     py_slice blob 12 60 = concat (map u32_le (concat vertices)) \<and>
     py_slice blob 60 92 = concat (map u32_le (concat uvs)) \<and>
     py_slice blob 92 (92 + int (length png)) = png \<and>
     92 + int (length png) \<le> int (length blob) \<and>
     int (length blob) < 92 + int (length png) + 4 \<and>
     int (length blob) mod 4 = 0 \<and>
     list_all (\<lambda>bv. byteOffset bv mod 4 = 0 \<and> 0 \<le> byteOffset bv \<and>
                    byteOffset bv + byteLength bv \<le> int (length blob))
       (bufferViews (standalone_gltf png))"
proof -
  let ?g = "standalone_gltf png"
  let ?blob = "standalone_blob png"
  have b: "binary_blob ?g = Some ?blob" by (rule standalone_gltf_blob)
  have bu: "buffers ?g = [\<lparr>buf_byteLength = int (length ?blob)\<rparr>]"
    by (rule standalone_gltf_buffers)
  have o: "map byteOffset (bufferViews ?g) = [0, 12, 60, 92]"
    by (simp add: standalone_gltf_views)
  have l: "map byteLength (bufferViews ?g) = [12, 48, 32, int (length png)]"
    by (simp add: standalone_gltf_views)
  note ab = align4_bounds [of "int (length png)"]
  have len: "int (length ?blob) = 92 + align4 (int (length png))"
    by (rule standalone_blob_length)
  have lo: "92 + int (length png) \<le> int (length ?blob)" using ab by (simp only: len) simp
  have hi: "int (length ?blob) < 92 + int (length png) + 4" using ab by (simp only: len) simp
  have m: "int (length ?blob) mod 4 = 0"
  proof -
    have "(92 + align4 (int (length png))) mod 4 = (92 mod 4 + align4 (int (length png)) mod 4) mod 4"
      by (rule mod_add_eq [symmetric])
    also have "\<dots> = 0" using ab by simp
    finally show ?thesis by (simp only: len)
  qed
  have all: "list_all (\<lambda>bv. byteOffset bv mod 4 = 0 \<and> 0 \<le> byteOffset bv \<and>
                          byteOffset bv + byteLength bv \<le> int (length ?blob))
             (bufferViews ?g)"
    using lo by (simp add: standalone_gltf_views)
  show ?thesis
    by (intro exI conjI)
      (rule b, rule bu, rule o, rule l, rule standalone_blob_slices(1),
       rule standalone_blob_slices(2), rule standalone_blob_slices(3),
       rule standalone_blob_slices(4), rule lo, rule hi, rule m, rule all)
qed

lemma toy_encode: "png_encode toy_codecs [[(1, 2, 3)]] = Inr [1, 2, 3]"
  by (simp add: toy_codecs_def)

lemma avatar_texture_path: "replace_glb_png ''avatar.glb'' = ''avatar.png''"
  by simp

lemma disk_write: "write_file (disk_with g) path content =
    Inr ((disk_with g)\<lparr>files := (files (disk_with g))(path \<mapsto> content)\<rparr>)"
  by (simp add: write_file_def disk_with_def)

lemma standalone_toy_run:
  "\<exists>fsys'. generate_standalone_avatar toy_codecs (disk_with head_template) ''photo.jpg''
             [[(1, 2, 3)]] ''avatar.glb'' = (Inr True, fsys')"
  by (simp add: generate_standalone_avatar_def standalone_try_def Let_def toy_encode
      avatar_texture_path write_file_def disk_with_def toy_installed)

text \<open>
  C10. The PNG is written before the \<open>try\<close>: once that write is accepted, the body of
  the \<open>try\<close> runs on the file system that already holds the PNG. Either it succeeds
  and the function returns True, or it raises, and then the function returns False (no
  exception reaches the caller), the file system is the one right after the PNG write,
  and the PNG file is there.
\<close>

theorem standalone_png_before_container:
  assumes "png_encode env face_texture = Inr png"
    "write_file fsys (replace_glb_png output_path) (PngFile png) = Inr fsys1"
  shows "(\<exists>fsys2. standalone_try env fsys1 face_texture output_path = Inr fsys2 \<and>
            generate_standalone_avatar env fsys image_path face_texture output_path =
              (Inr True, fsys2)) \<or>
         ((\<exists>e. standalone_try env fsys1 face_texture output_path = Inl e) \<and>
          generate_standalone_avatar env fsys image_path face_texture output_path =
            (Inr False, fsys1) \<and>
          files fsys1 (replace_glb_png output_path) = Some (PngFile png))"
proof (cases "standalone_try env fsys1 face_texture output_path")
  case (Inl e)
  have "files fsys1 (replace_glb_png output_path) = Some (PngFile png)"
    by (rule write_file_read [OF assms(2)])
  with Inl assms show ?thesis
    by (simp add: generate_standalone_avatar_def Let_def)
next
  case (Inr fsys2)
  with assms show ?thesis
    by (simp add: generate_standalone_avatar_def Let_def)
qed

lemma toy_uninstalled_encode:
  "png_encode (toy_codecs\<lparr>pygltflib_installed := False\<rparr>) [[(1, 2, 3)]] = Inr [1, 2, 3]"
  by (simp add: toy_codecs_def)

theorem standalone_png_before_container_witness:
  "generate_standalone_avatar (toy_codecs\<lparr>pygltflib_installed := False\<rparr>)
     (disk_with head_template) ''photo.jpg'' [[(1, 2, 3)]] ''avatar.glb'' =
     (Inr False,
      (disk_with head_template)
        \<lparr>files := (files (disk_with head_template))(''avatar.png'' \<mapsto> PngFile [1, 2, 3])\<rparr>) \<and>
   files ((disk_with head_template)
        \<lparr>files := (files (disk_with head_template))(''avatar.png'' \<mapsto> PngFile [1, 2, 3])\<rparr>)
     ''avatar.png'' = Some (PngFile [1, 2, 3])"
proof -
  let ?env = "toy_codecs\<lparr>pygltflib_installed := False\<rparr>"
  let ?fs1 = "(disk_with head_template)
        \<lparr>files := (files (disk_with head_template))(''avatar.png'' \<mapsto> PngFile [1, 2, 3])\<rparr>"
  have w: "write_file (disk_with head_template) (replace_glb_png ''avatar.glb'')
             (PngFile [1, 2, 3]) = Inr ?fs1"
    by (simp only: avatar_texture_path disk_write)
  have t: "standalone_try ?env ?fs1 [[(1, 2, 3)]] ''avatar.glb'' = Inl ImportError"
    by (simp add: standalone_try_def)
  from standalone_png_before_container [OF toy_uninstalled_encode w, of "''photo.jpg''"] t
  show ?thesis by (simp add: avatar_texture_path)
qed

section \<open>The geometry mapper\<close>


















section \<open>The compositor\<close>

lemma pow2_powi: "pow2 e = 2 powi e"
  by (simp add: pow2_def power_int_def field_simps)

lemma pow2_mono: "a \<le> b \<Longrightarrow> pow2 a \<le> pow2 b"
  unfolding pow2_powi by (rule power_int_increasing) simp_all

lemma f32_exponent_eq:
  "pow2 e \<le> x \<Longrightarrow> x < pow2 (e + 1) \<Longrightarrow> - 126 \<le> e \<Longrightarrow> e < int n - 126 \<Longrightarrow>
   f32_exponent n x = e"
proof (induction n)
  case 0
  then show ?case by simp
next
  case (Suc k)
  show ?case
  proof (cases "e = int k - 126")
    case True
    with Suc.prems show ?thesis by simp
  next
    case False
    with Suc.prems have lt: "e < int k - 126" by simp
    then have "e + 1 \<le> int k - 126" by simp
    then have "pow2 (e + 1) \<le> pow2 (int k - 126)" by (rule pow2_mono)
    with Suc.prems(2) have "\<not> pow2 (int k - 126) \<le> x" by simp
    with Suc.IH [OF Suc.prems(1) Suc.prems(2) Suc.prems(3) lt] show ?thesis by simp
  qed
qed

lemma round_half_even_int: "round_half_even (of_int m) = m"
  by (simp add: round_half_even_def)

lemma f32_zero: "f32 0 = 0"
  by (simp add: f32_def round_half_even_def)


lemma pow2_nat: "pow2 (int k) = 2 ^ k"
  by (simp add: pow2_def)

lemma pow2_below: "k \<le> 23 \<Longrightarrow> pow2 (int k - 23) = 1 / 2 ^ (23 - k)"
proof (cases "k = 23")
  case True
  then show ?thesis by (simp add: pow2_def)
next
  case False
  assume "k \<le> 23"
  with False have lt: "int k - 23 < 0" by simp
  have "nat (- (int k - 23)) = 23 - k" by simp
  with lt show ?thesis by (simp add: pow2_def)
qed

lemma f32_of_nat:
  assumes "n < 2 ^ 24"
  shows "f32 (of_nat n) = of_nat n"
proof (cases "n = 0")
  case True
  then show ?thesis by (simp add: f32_zero)
next
  case False
  then have "1 \<le> n" by simp
  from ex_power_ivl1 [OF order_refl this] obtain k where
    lo: "2 ^ k \<le> n" and hi: "n < 2 ^ (k + 1)"
    by blast
  from lo assms have "(2::nat) ^ k < 2 ^ 24" by simp
  then have k: "k < 24" using power_less_imp_less_exp [of "2::nat" k 24] by simp
  let ?x = "of_nat n :: rat"
  have absx: "\<bar>?x\<bar> = ?x" by simp
  have "(of_nat (2 ^ k) :: rat) \<le> of_nat n" using lo by (simp only: of_nat_le_iff)
  then have plo: "pow2 (int k) \<le> ?x" by (simp add: pow2_nat)
  have "(of_nat n :: rat) < of_nat (2 ^ (k + 1))" using hi by (simp only: of_nat_less_iff)
  moreover have "pow2 (int k + 1) = 2 ^ (k + 1)"
    using pow2_nat [of "k + 1"] by (simp add: add.commute)
  ultimately have phi: "?x < pow2 (int k + 1)" by simp
  have e: "f32_exponent 254 \<bar>?x\<bar> = int k"
    unfolding absx by (rule f32_exponent_eq [OF plo phi]) (use k in simp_all)
  have ulp: "pow2 (int k - 23) = 1 / 2 ^ (23 - k)"
    using k by (intro pow2_below) simp
  have q: "?x / (1 / 2 ^ (23 - k)) = of_int (int (n * 2 ^ (23 - k)))"
    by simp
  have "f32 ?x = of_int (round_half_even (?x / (1 / 2 ^ (23 - k)))) * (1 / 2 ^ (23 - k))"
    by (simp only: f32_def e ulp Let_def)
  also have "\<dots> = of_int (int (n * 2 ^ (23 - k))) * (1 / 2 ^ (23 - k))"
    by (simp only: q round_half_even_int)
  also have "\<dots> = ?x" by simp
  finally show ?thesis .
qed

lemma f32_uint8: "f32 (of_uint8 b) = of_uint8 b"
proof -
  have "unat b < 2 ^ LENGTH(8)" by (rule unsigned_less)
  then have "unat b < 2 ^ 8" by simp
  then have "unat b < 2 ^ 24" by simp
  then show ?thesis unfolding of_uint8_def by (rule f32_of_nat)
qed

lemma f32_one: "f32 1 = 1"
  using f32_of_nat [of 1] by simp

lemma to_uint8_of_uint8: "to_uint8 (of_uint8 b) = b"
proof -
  have "(0::rat) \<le> of_nat (unat b)" by (rule of_nat_0_le_iff)
  then have "to_uint8 (of_uint8 b) = word_of_int \<lfloor>of_nat (unat b) :: rat\<rfloor>"
    by (simp only: to_uint8_def of_uint8_def if_True)
  also have "\<dots> = word_of_int (int (unat b))" by (simp only: floor_of_nat)
  also have "\<dots> = b" by simp
  finally show ?thesis .
qed


lemma alpha_full: "fdiv (of_uint8 255) 255 = 1"
  by (simp add: fdiv_def of_uint8_def f32_one)

lemma alpha_none: "fdiv (of_uint8 0) 255 = 0"
  by (simp add: fdiv_def of_uint8_def f32_zero)

lemma f32_blend_steps:
  "fmul (of_uint8 b) 1 = of_uint8 b" "fmul (of_uint8 b) 0 = 0"
  "fsub 1 1 = 0" "fsub 1 0 = 1"
  "fadd (of_uint8 b) 0 = of_uint8 b" "fadd 0 (of_uint8 b) = of_uint8 b"
  by (simp_all add: fmul_def fsub_def fadd_def f32_uint8 f32_zero f32_one)

lemma pixel_full:
  "rgb_to_uint8 (add_rgb (scale_rgb (rgb_to_f32 p) 1) (scale_rgb (rgb_to_f32 q) (fsub 1 1))) = p"
  by (cases p, cases q)
    (simp add: rgb_to_uint8_def add_rgb_def scale_rgb_def rgb_to_f32_def f32_blend_steps
      to_uint8_of_uint8)

lemma pixel_none:
  "rgb_to_uint8 (add_rgb (scale_rgb (rgb_to_f32 p) 0) (scale_rgb (rgb_to_f32 q) (fsub 1 0))) = q"
  by (cases p, cases q)
    (simp add: rgb_to_uint8_def add_rgb_def scale_rgb_def rgb_to_f32_def f32_blend_steps
      to_uint8_of_uint8)

lemma row_full:
  assumes "length wr = length mr" "length mr = length orow" "list_all (\<lambda>m. m = 255) mr"
  shows "map rgb_to_uint8
           (map2 add_rgb
              (map2 scale_rgb (map rgb_to_f32 wr) (map (\<lambda>m. fdiv (of_uint8 m) 255) mr))
              (map2 scale_rgb (map rgb_to_f32 orow)
                 (map (\<lambda>a. fsub 1 a) (map (\<lambda>m. fdiv (of_uint8 m) 255) mr)))) = wr"
  using assms
  by (induction wr mr orow rule: list_induct3) (simp_all add: alpha_full pixel_full)

lemma row_none:
  assumes "length wr = length mr" "length mr = length orow" "list_all (\<lambda>m. m = 0) mr"
  shows "map rgb_to_uint8
           (map2 add_rgb
              (map2 scale_rgb (map rgb_to_f32 wr) (map (\<lambda>m. fdiv (of_uint8 m) 255) mr))
              (map2 scale_rgb (map rgb_to_f32 orow)
                 (map (\<lambda>a. fsub 1 a) (map (\<lambda>m. fdiv (of_uint8 m) 255) mr)))) = orow"
  using assms
  by (induction wr mr orow rule: list_induct3) (simp_all add: alpha_none pixel_none)

lemma np_stretch_same: "np_stretch (length xs) xs = xs"
  by (simp add: np_stretch_def)

lemma np_shape_of: "has_shape h w a \<Longrightarrow> np_shape a = (h, if h = 0 then 0 else w)"
  by (cases a) (auto simp: has_shape_def np_shape_def)

lemma np_stretch_rows:
  "list_all (\<lambda>r. length r = w) a \<Longrightarrow> map (np_stretch w) a = a"
  by (induction a) (auto simp: np_stretch_def)

lemma np_binop_same_shape:
  assumes "has_shape h w a" "has_shape h w b"
  shows "np_binop f a b = Inr (map2 (map2 f) a b)"
proof (cases "h = 0")
  case True
  with assms have "a = []" "b = []" by (simp_all add: has_shape_def)
  then show ?thesis
    by (simp add: np_binop_def np_shape_def np_compatible_def np_stretch_def np_dim_def)
next
  case False
  have sa: "np_shape a = (h, w)" and sb: "np_shape b = (h, w)"
    using assms False by (simp_all add: np_shape_of)
  have ra: "map (np_stretch w) a = a" and rb: "map (np_stretch w) b = b"
    using assms by (simp_all add: has_shape_def np_stretch_rows)
  have la: "np_stretch h a = a" and lb: "np_stretch h b = b"
    using assms np_stretch_same [of a] np_stretch_same [of b] by (simp_all add: has_shape_def)
  show ?thesis
    by (simp add: np_binop_def sa sb np_compatible_def np_dim_def ra rb la lb)
qed

lemma has_shape_map: "has_shape h w a \<Longrightarrow> has_shape h w (map (map f) a)"
  by (simp add: has_shape_def list_all_iff)

lemma rows_map2:
  "length a = length b \<Longrightarrow> list_all (\<lambda>r. length r = w) a \<Longrightarrow>
   list_all (\<lambda>r. length r = w) b \<Longrightarrow> list_all (\<lambda>r. length r = w) (map2 (map2 f) a b)"
  by (induction a b rule: list_induct2) simp_all

lemma has_shape_map2:
  assumes "has_shape h w a" "has_shape h w b"
  shows "has_shape h w (map2 (map2 f) a b)"
  using assms rows_map2 [of a b w f] by (simp add: has_shape_def)


lemma grid_full:
  assumes "length warped = length msk" "length msk = length original"
    "list_all (\<lambda>r. length r = w) warped" "list_all (\<lambda>r. length r = w) msk"
    "list_all (\<lambda>r. length r = w) original" "list_all (list_all (\<lambda>m. m = 255)) msk"
  shows "map (map rgb_to_uint8)
           (map2 (map2 add_rgb)
              (map2 (map2 scale_rgb) (map (map rgb_to_f32) warped)
                 (map (map (\<lambda>m. fdiv (of_uint8 m) 255)) msk))
              (map2 (map2 scale_rgb) (map (map rgb_to_f32) original)
                 (map (map (\<lambda>a. fsub 1 a)) (map (map (\<lambda>m. fdiv (of_uint8 m) 255)) msk))))
         = warped"
  using assms
  by (induction warped msk original rule: list_induct3) (simp_all add: row_full [simplified])

lemma grid_none:
  assumes "length warped = length msk" "length msk = length original"
    "list_all (\<lambda>r. length r = w) warped" "list_all (\<lambda>r. length r = w) msk"
    "list_all (\<lambda>r. length r = w) original" "list_all (list_all (\<lambda>m. m = 0)) msk"
  shows "map (map rgb_to_uint8)
           (map2 (map2 add_rgb)
              (map2 (map2 scale_rgb) (map (map rgb_to_f32) warped)
                 (map (map (\<lambda>m. fdiv (of_uint8 m) 255)) msk))
              (map2 (map2 scale_rgb) (map (map rgb_to_f32) original)
                 (map (map (\<lambda>a. fsub 1 a)) (map (map (\<lambda>m. fdiv (of_uint8 m) 255)) msk))))
         = original"
  using assms
  by (induction warped msk original rule: list_induct3) (simp_all add: row_none [simplified])

lemma blend_same_shape:
  assumes "has_shape h w warped_face" "has_shape h w face_mask" "has_shape h w original"
  shows "blend warped_face face_mask original =
     Inr (map (map rgb_to_uint8)
           (map2 (map2 add_rgb)
              (map2 (map2 scale_rgb) (map (map rgb_to_f32) warped_face)
                 (map (map (\<lambda>m. fdiv (of_uint8 m) 255)) face_mask))
              (map2 (map2 scale_rgb) (map (map rgb_to_f32) original)
                 (map (map (\<lambda>a. fsub 1 a))
                    (map (map (\<lambda>m. fdiv (of_uint8 m) 255)) face_mask)))))"
proof -
  let ?alpha = "map (map (\<lambda>m. fdiv (of_uint8 m) 255)) face_mask"
  let ?W = "map (map rgb_to_f32) warped_face"
  let ?O = "map (map rgb_to_f32) original"
  let ?beta = "map (map (\<lambda>a. fsub 1 a)) ?alpha"
  have sa: "has_shape h w ?alpha" by (rule has_shape_map [OF assms(2)])
  have sb: "has_shape h w ?beta" by (rule has_shape_map [OF sa])
  have sw: "has_shape h w ?W" by (rule has_shape_map [OF assms(1)])
  have so: "has_shape h w ?O" by (rule has_shape_map [OF assms(3)])
  have t1: "np_binop scale_rgb ?W ?alpha = Inr (map2 (map2 scale_rgb) ?W ?alpha)"
    by (rule np_binop_same_shape [OF sw sa])
  have t2: "np_binop scale_rgb ?O ?beta = Inr (map2 (map2 scale_rgb) ?O ?beta)"
    by (rule np_binop_same_shape [OF so sb])
  have s: "np_binop add_rgb (map2 (map2 scale_rgb) ?W ?alpha) (map2 (map2 scale_rgb) ?O ?beta) =
             Inr (map2 (map2 add_rgb) (map2 (map2 scale_rgb) ?W ?alpha)
                    (map2 (map2 scale_rgb) ?O ?beta))"
    by (rule np_binop_same_shape [OF has_shape_map2 [OF sw sa] has_shape_map2 [OF so sb]])
  show ?thesis
    unfolding blend_def Let_def by (simp only: t1 t2 s sum.case)
qed

text \<open>
  C7. Warped photo, mask and original texture have the same height and width. With a
  mask that is 255 everywhere the blend of lines 240--245 returns the warped photo, and
  with a mask that is 0 everywhere it returns the original texture, pixel for pixel:
  in float32 the weight is exactly 1 or 0, every product and sum is a whole number
  below 256, and the conversion back to bytes cuts nothing off.
\<close>

theorem blend_extremes:
  assumes "has_shape h w warped_face" "has_shape h w face_mask" "has_shape h w original"
  shows "(list_all (list_all (\<lambda>m. m = 255)) face_mask \<longrightarrow>
            blend warped_face face_mask original = Inr warped_face) \<and>
         (list_all (list_all (\<lambda>m. m = 0)) face_mask \<longrightarrow>
            blend warped_face face_mask original = Inr original)"
proof -
  have l1: "length warped_face = length face_mask" and l2: "length face_mask = length original"
    using assms by (simp_all add: has_shape_def)
  have r: "list_all (\<lambda>r. length r = w) warped_face" "list_all (\<lambda>r. length r = w) face_mask"
    "list_all (\<lambda>r. length r = w) original"
    using assms by (simp_all add: has_shape_def)
  show ?thesis
  proof (intro conjI impI)
    assume "list_all (list_all (\<lambda>m. m = 255)) face_mask"
    from grid_full [OF l1 l2 r this] show "blend warped_face face_mask original = Inr warped_face"
      by (simp only: blend_same_shape [OF assms])
  next
    assume "list_all (list_all (\<lambda>m. m = 0)) face_mask"
    from grid_none [OF l1 l2 r this] show "blend warped_face face_mask original = Inr original"
      by (simp only: blend_same_shape [OF assms])
  qed
qed

theorem blend_extremes_witness:
  "has_shape 1 2 [[(10, 20, 30), (40, 50, 60 :: byte)]] \<and>
   has_shape 1 2 [[255, 255 :: byte]] \<and> has_shape 1 2 [[0, 0 :: byte]] \<and>
   has_shape 1 2 [[(1, 2, 3), (4, 5, 6 :: byte)]] \<and>
   blend [[(10, 20, 30), (40, 50, 60)]] [[255, 255]] [[(1, 2, 3), (4, 5, 6)]] =
     Inr [[(10, 20, 30), (40, 50, 60)]] \<and>
   blend [[(10, 20, 30), (40, 50, 60)]] [[0, 0]] [[(1, 2, 3), (4, 5, 6)]] =
     Inr [[(1, 2, 3), (4, 5, 6)]]"
proof -
  have w: "has_shape 1 2 [[(10, 20, 30), (40, 50, 60 :: byte)]]" by (simp add: has_shape_def)
  have m1: "has_shape 1 2 [[255, 255 :: byte]]" by (simp add: has_shape_def)
  have m0: "has_shape 1 2 [[0, 0 :: byte]]" by (simp add: has_shape_def)
  have o: "has_shape 1 2 [[(1, 2, 3), (4, 5, 6 :: byte)]]" by (simp add: has_shape_def)
  have a1: "list_all (list_all (\<lambda>m. m = 255)) [[255, 255 :: byte]]" by simp
  have a0: "list_all (list_all (\<lambda>m. m = 0)) [[0, 0 :: byte]]" by simp
  from blend_extremes [OF w m1 o] a1
  have b1: "blend [[(10, 20, 30), (40, 50, 60)]] [[255, 255]] [[(1, 2, 3), (4, 5, 6)]] =
     Inr [[(10, 20, 30), (40, 50, 60)]]" by blast
  from blend_extremes [OF w m0 o] a0
  have b0: "blend [[(10, 20, 30), (40, 50, 60)]] [[0, 0]] [[(1, 2, 3), (4, 5, 6)]] =
     Inr [[(1, 2, 3), (4, 5, 6)]]" by blast
  show ?thesis by (intro conjI) (rule w, rule m1, rule m0, rule o, rule b1, rule b0)
qed

end
